theory Spec2Isabelle
  imports Main "HOL-Library.Word" "HOL-Library.Sublist" "HOL-Library.AList"
begin

section \<open>Byte strings: the Go standard library functions the code calls\<close>

text \<open>
  A Go \<open>[]byte\<close> and a Go \<open>string\<close> are both modelled as \<open>string\<close>, a list of
  8-bit characters. A nil slice and an empty slice are the same value \<open>[]\<close>: the code
  only ever asks for their length.
\<close>

type_synonym bytes = string

type_synonym int64 = "64 word"

text \<open>
  \<open>bytes.TrimSpace\<close> removes leading and trailing white space as Unicode defines it.
  The six ASCII space bytes are one byte wide; the other white-space runes are listed
  by their UTF-8 encodings (U+0085, U+00A0, U+1680, U+2000 to U+200A, U+2028, U+2029,
  U+202F, U+205F, U+3000).
\<close>

definition asciiSpace :: "char \<Rightarrow> bool" where
  "asciiSpace c \<longleftrightarrow> c \<in> set [CHR 0x09, CHR 0x0A, CHR 0x0B, CHR 0x0C, CHR 0x0D, CHR 0x20]"

definition unicodeSpaces :: "string list" where
  "unicodeSpaces =
     [[CHR 0xC2, CHR 0x85], [CHR 0xC2, CHR 0xA0], [CHR 0xE1, CHR 0x9A, CHR 0x80],
      [CHR 0xE2, CHR 0x80, CHR 0x80], [CHR 0xE2, CHR 0x80, CHR 0x81],
      [CHR 0xE2, CHR 0x80, CHR 0x82], [CHR 0xE2, CHR 0x80, CHR 0x83],
      [CHR 0xE2, CHR 0x80, CHR 0x84], [CHR 0xE2, CHR 0x80, CHR 0x85],
      [CHR 0xE2, CHR 0x80, CHR 0x86], [CHR 0xE2, CHR 0x80, CHR 0x87],
      [CHR 0xE2, CHR 0x80, CHR 0x88], [CHR 0xE2, CHR 0x80, CHR 0x89],
      [CHR 0xE2, CHR 0x80, CHR 0x8A], [CHR 0xE2, CHR 0x80, CHR 0xA8],
      [CHR 0xE2, CHR 0x80, CHR 0xA9], [CHR 0xE2, CHR 0x80, CHR 0xAF],
      [CHR 0xE2, CHR 0x81, CHR 0x9F], [CHR 0xE3, CHR 0x80, CHR 0x80]]"

definition leadingSpaceWidth :: "bytes \<Rightarrow> nat" where
  "leadingSpaceWidth s =
     (case s of
        [] \<Rightarrow> 0
      | c # _ \<Rightarrow>
          if asciiSpace c then 1
          else (case find (\<lambda>r. prefix r s) unicodeSpaces of
                  Some r \<Rightarrow> length r
                | None \<Rightarrow> 0))"

definition trailingSpaceWidth :: "bytes \<Rightarrow> nat" where
  "trailingSpaceWidth s =
     (case rev s of
        [] \<Rightarrow> 0
      | c # _ \<Rightarrow>
          if asciiSpace c then 1
          else (case find (\<lambda>r. suffix r s) unicodeSpaces of
                  Some r \<Rightarrow> length r
                | None \<Rightarrow> 0))"

fun trimLeftN :: "nat \<Rightarrow> bytes \<Rightarrow> bytes" where
  "trimLeftN 0 s = s"
| "trimLeftN (Suc n) s =
     (if leadingSpaceWidth s = 0 then s else trimLeftN n (drop (leadingSpaceWidth s) s))"

fun trimRightN :: "nat \<Rightarrow> bytes \<Rightarrow> bytes" where
  "trimRightN 0 s = s"
| "trimRightN (Suc n) s =
     (if trailingSpaceWidth s = 0 then s
      else trimRightN n (take (length s - trailingSpaceWidth s) s))"

definition TrimSpace :: "bytes \<Rightarrow> bytes" where
  "TrimSpace s = (let l = trimLeftN (length s) s in trimRightN (length l) l)"

text \<open>\<open>bytes.HasPrefix\<close> is \<^const>\<open>prefix\<close>. \<open>bytes.Index\<close> gives the first position of
  a sub-slice; Go's \<open>-1\<close> is \<open>None\<close>.\<close>

fun Index :: "bytes \<Rightarrow> bytes \<Rightarrow> nat option" where
  "Index [] sep = (if sep = [] then Some 0 else None)"
| "Index (c # s) sep =
     (if prefix sep (c # s) then Some 0
      else (case Index s sep of None \<Rightarrow> None | Some i \<Rightarrow> Some (Suc i)))"

text \<open>\<open>bytes.Split(payload, "\n")\<close> and \<open>bytes.Join(lines, "\n")\<close>; the same splitting
  at a dot gives the components of a gjson path.\<close>

fun splitOn :: "char \<Rightarrow> string \<Rightarrow> string list" where
  "splitOn sep [] = [[]]"
| "splitOn sep (c # s) =
     (if c = sep then [] # splitOn sep s
      else (case splitOn sep s of
              [] \<Rightarrow> [[c]]
            | l # ls \<Rightarrow> (c # l) # ls))"

fun joinWith :: "char \<Rightarrow> string list \<Rightarrow> string" where
  "joinWith sep [] = []"
| "joinWith sep [l] = l"
| "joinWith sep (l # ls) = l @ sep # joinWith sep ls"

definition SplitLines :: "bytes \<Rightarrow> bytes list" where
  "SplitLines payload = splitOn (CHR 0x0A) payload"

definition JoinLines :: "bytes list \<Rightarrow> bytes" where
  "JoinLines ls = joinWith (CHR 0x0A) ls"

text \<open>\<open>strings.ToLower\<close> on the ASCII letters. (No rune outside ASCII lower-cases to a
  letter of \<open>mysql\<close>, the one driver name whose choice differs from the default.)\<close>

definition toLowerChar :: "char \<Rightarrow> char" where
  "toLowerChar c =
     (if 65 \<le> (of_char c :: nat) \<and> (of_char c :: nat) \<le> 90
      then char_of ((of_char c :: nat) + 32) else c)"

definition ToLower :: "string \<Rightarrow> string" where
  "ToLower s = map toLowerChar s"

section \<open>The JSON library (gjson and sjson) as the code sees it\<close>

text \<open>
  The code reads JSON through \<open>github.com/tidwall/gjson\<close> and edits it through
  \<open>github.com/tidwall/sjson\<close>. Neither is part of this repository, so the functions
  of this repository take the library as a parameter \<open>L\<close>: a record of the calls they
  make. A \<open>gjson.Result\<close> is the record of what the code asks of it.
\<close>

record gjson_Result =
  Exists :: bool
  Raw :: bytes
  String :: string
  Int' :: int64
  IsArray :: bool

record jsonlib =
  ValidBytes :: "bytes \<Rightarrow> bool"
  GetBytes :: "bytes \<Rightarrow> string \<Rightarrow> gjson_Result"
  ParseBytes :: "bytes \<Rightarrow> gjson_Result"
  ForEach :: "gjson_Result \<Rightarrow> gjson_Result list"
  SetRawBytes :: "bytes \<Rightarrow> string \<Rightarrow> bytes \<Rightarrow> bytes"
  DeleteBytes :: "bytes \<Rightarrow> string \<Rightarrow> bytes"

text \<open>\<open>Result.Get(path)\<close> is \<open>gjson.Get(t.Raw, path)\<close>.\<close>

definition Result_Get :: "jsonlib \<Rightarrow> gjson_Result \<Rightarrow> string \<Rightarrow> gjson_Result" where
  "Result_Get L t path = GetBytes L (Raw t) path"


section \<open>The usage reporter (internal/runtime/executor/usage_helpers.go)\<close>

text \<open>
  A \<open>time.Time\<close> is modelled by the four things the code asks of it: \<open>IsZero()\<close>,
  \<open>UTC().Format(time.RFC3339Nano)\<close>, \<open>Format("2006-01-02")\<close> and \<open>Hour()\<close>.
\<close>

record Time =
  IsZero :: bool
  UTC_RFC3339Nano :: string
  Day :: string
  Hour :: int

record usage_Detail =
  InputTokens :: int64
  OutputTokens :: int64
  ReasoningTokens :: int64
  CachedTokens :: int64
  TotalTokens :: int64

definition emptyDetail :: usage_Detail where
  "emptyDetail =
     \<lparr>usage_Detail.InputTokens = 0, usage_Detail.OutputTokens = 0,
      usage_Detail.ReasoningTokens = 0, usage_Detail.CachedTokens = 0,
      usage_Detail.TotalTokens = 0\<rparr>"

record usage_Record =
  Provider :: string
  Model :: string
  APIKey :: string
  AuthID :: string
  AuthIndex :: string
  Source :: string
  RequestedAt :: Time
  Failed :: bool
  Detail :: usage_Detail
  Method :: string
  Path :: string
  ClientIP :: string
  StatusCode :: int
  LatencyMs :: int64

text \<open>The reporter. \<open>once\<close> is the state of its \<open>sync.Once\<close>: whether it has fired.
  A \<open>*usageReporter\<close> is a \<open>usageReporter option\<close>, \<open>None\<close> for the nil pointer.\<close>

record usageReporter =
  provider :: string
  model :: string
  authID :: string
  authIndex :: string
  apiKey :: string
  source :: string
  requestedAt :: Time
  inputPayload :: bytes
  outputPayload :: bytes
  respID :: string
  finishReasons :: "string list"
  once :: bool

definition SetInput :: "usageReporter option \<Rightarrow> bytes \<Rightarrow> usageReporter option" where
  "SetInput r payload =
     (if r = None \<or> length payload = 0 then r
      else map_option (\<lambda>u. u\<lparr>inputPayload := payload\<rparr>) r)"

definition SetOutput :: "usageReporter option \<Rightarrow> bytes \<Rightarrow> usageReporter option" where
  "SetOutput r payload =
     (if r = None \<or> length payload = 0 then r
      else map_option (\<lambda>u. u\<lparr>outputPayload := payload\<rparr>) r)"

definition AppendOutput :: "usageReporter option \<Rightarrow> bytes \<Rightarrow> usageReporter option" where
  "AppendOutput r chunk =
     (if r = None \<or> length chunk = 0 then r
      else map_option (\<lambda>u. u\<lparr>outputPayload := outputPayload u @ chunk\<rparr>) r)"

text \<open>The loop \<open>choices.ForEach\<close> of \<open>CaptureStreamChunk\<close>: every non-empty
  \<open>finish_reason\<close> is appended.\<close>

definition appendFinishReasons :: "jsonlib \<Rightarrow> gjson_Result \<Rightarrow> string list \<Rightarrow> string list" where
  "appendFinishReasons L choices reasons =
     foldl (\<lambda>acc choice.
              let reason = String (Result_Get L choice ''finish_reason'')
              in if reason \<noteq> [] then acc @ [reason] else acc)
       reasons (ForEach L choices)"

definition CaptureStreamChunk :: "jsonlib \<Rightarrow> usageReporter option \<Rightarrow> bytes \<Rightarrow> usageReporter option" where
  "CaptureStreamChunk L r chunk =
     (if r = None \<or> length chunk = 0 then r
      else
        let trimmed0 = TrimSpace chunk;
            trimmed = (if prefix ''data:'' trimmed0 then TrimSpace (drop 5 trimmed0) else trimmed0)
        in if length trimmed = 0 \<or> \<not> ValidBytes L trimmed then r
           else map_option
             (\<lambda>u.
                let id = String (GetBytes L trimmed ''id'');
                    u1 = (if id \<noteq> [] then u\<lparr>respID := id\<rparr> else u);
                    choices = GetBytes L trimmed ''choices'';
                    u2 = (if IsArray choices
                          then u1\<lparr>finishReasons := appendFinishReasons L choices (finishReasons u1)\<rparr>
                          else u1);
                    content1 = String (GetBytes L trimmed ''choices.0.delta.content'')
                in if content1 \<noteq> [] then u2\<lparr>outputPayload := outputPayload u2 @ content1\<rparr>
                   else
                     let content2 = String (GetBytes L trimmed ''candidates.0.content.parts.0.text'')
                     in if content2 \<noteq> [] then u2\<lparr>outputPayload := outputPayload u2 @ content2\<rparr>
                        else
                          let content3 = String (GetBytes L trimmed ''delta.text'');
                              content4 = (if content3 = []
                                          then String (GetBytes L trimmed ''content_block.text'')
                                          else content3)
                          in if content4 \<noteq> [] then u2\<lparr>outputPayload := outputPayload u2 @ content4\<rparr>
                             else u2)
             r)"

text \<open>
  The first lines of \<open>publishWithOutcome\<close>: a zero total is replaced by
  input + output + reasoning when that sum is positive (a signed comparison).
\<close>

definition deriveTotal :: "usage_Detail \<Rightarrow> usage_Detail" where
  "deriveTotal detail =
     (if usage_Detail.TotalTokens detail = 0 then
        (let total = usage_Detail.InputTokens detail + usage_Detail.OutputTokens detail
                       + usage_Detail.ReasoningTokens detail
         in if 0 <s total then detail\<lparr>usage_Detail.TotalTokens := total\<rparr> else detail)
      else detail)"

text \<open>
  \<open>publishWithOutcome\<close>. The world it acts on is the list of records handed to
  \<open>usage.PublishRecord\<close>, oldest first. \<open>r.once.Do(f)\<close> runs \<open>f\<close> when the latch has
  not fired and fires it; otherwise it does nothing. Inside \<open>f\<close>, the attributes set on
  the tracing span read the reporter and the detail and write only to the span; they are
  not part of this state.
\<close>

definition publishWithOutcome ::
  "usageReporter option \<Rightarrow> usage_Detail \<Rightarrow> bool \<Rightarrow> usage_Record list
     \<Rightarrow> usageReporter option \<times> usage_Record list" where
  "publishWithOutcome r detail failed published =
     (case r of
        None \<Rightarrow> (None, published)
      | Some u \<Rightarrow>
          let detail' = deriveTotal detail
          in if once u then (Some u, published)
             else (Some (u\<lparr>once := True\<rparr>),
                   published @
                   [\<lparr>Provider = provider u, Model = model u, APIKey = apiKey u,
                     AuthID = authID u, AuthIndex = authIndex u, Source = source u,
                     RequestedAt = requestedAt u, Failed = failed, Detail = detail',
                     Method = [], Path = [], ClientIP = [], StatusCode = 0, LatencyMs = 0\<rparr>]))"

definition publish ::
  "usageReporter option \<Rightarrow> usage_Detail \<Rightarrow> usage_Record list \<Rightarrow> usageReporter option \<times> usage_Record list" where
  "publish r detail published = publishWithOutcome r detail False published"

definition publishFailure ::
  "usageReporter option \<Rightarrow> usage_Record list \<Rightarrow> usageReporter option \<times> usage_Record list" where
  "publishFailure r published = publishWithOutcome r emptyDetail True published"

definition ensurePublished ::
  "usageReporter option \<Rightarrow> usage_Record list \<Rightarrow> usageReporter option \<times> usage_Record list" where
  "ensurePublished r published =
     (if r = None then (r, published) else publishWithOutcome r emptyDetail False published)"

text \<open>The completion calls of a request, and a sequence of them on one reporter.\<close>

datatype completion = Publish usage_Detail | PublishFailure | EnsurePublished

fun complete ::
  "completion \<Rightarrow> usageReporter option \<times> usage_Record list \<Rightarrow> usageReporter option \<times> usage_Record list" where
  "complete (Publish detail) (r, published) = publish r detail published"
| "complete PublishFailure (r, published) = publishFailure r published"
| "complete EnsurePublished (r, published) = ensurePublished r published"

fun completeAll ::
  "completion list \<Rightarrow> usageReporter option \<times> usage_Record list \<Rightarrow> usageReporter option \<times> usage_Record list" where
  "completeAll [] st = st"
| "completeAll (c # cs) st = completeAll cs (complete c st)"

text \<open>The record a completion call publishes when it is the one that fires.\<close>

definition recordOf :: "usageReporter \<Rightarrow> completion \<Rightarrow> usage_Record" where
  "recordOf u c =
     \<lparr>Provider = provider u, Model = model u, APIKey = apiKey u,
      AuthID = authID u, AuthIndex = authIndex u, Source = source u,
      RequestedAt = requestedAt u,
      Failed = (case c of PublishFailure \<Rightarrow> True | _ \<Rightarrow> False),
      Detail = (case c of Publish detail \<Rightarrow> deriveTotal detail | _ \<Rightarrow> emptyDetail),
      Method = [], Path = [], ClientIP = [], StatusCode = 0, LatencyMs = 0\<rparr>"

subsection \<open>Token-usage parsers\<close>

definition parseOpenAIUsage :: "jsonlib \<Rightarrow> bytes \<Rightarrow> usage_Detail" where
  "parseOpenAIUsage L data =
     (let usageNode = Result_Get L (ParseBytes L data) ''usage''
      in if \<not> Exists usageNode then emptyDetail
         else
           let inputNode0 = Result_Get L usageNode ''prompt_tokens'';
               inputNode = (if \<not> Exists inputNode0 then Result_Get L usageNode ''input_tokens''
                            else inputNode0);
               outputNode0 = Result_Get L usageNode ''completion_tokens'';
               outputNode = (if \<not> Exists outputNode0 then Result_Get L usageNode ''output_tokens''
                             else outputNode0);
               detail = \<lparr>usage_Detail.InputTokens = Int' inputNode,
                         usage_Detail.OutputTokens = Int' outputNode,
                         usage_Detail.ReasoningTokens = 0,
                         usage_Detail.CachedTokens = 0,
                         usage_Detail.TotalTokens = Int' (Result_Get L usageNode ''total_tokens'')\<rparr>;
               cached0 = Result_Get L usageNode ''prompt_tokens_details.cached_tokens'';
               cached = (if \<not> Exists cached0
                         then Result_Get L usageNode ''input_tokens_details.cached_tokens''
                         else cached0);
               detail1 = (if Exists cached then detail\<lparr>usage_Detail.CachedTokens := Int' cached\<rparr>
                          else detail);
               reasoning0 = Result_Get L usageNode ''completion_tokens_details.reasoning_tokens'';
               reasoning = (if \<not> Exists reasoning0
                            then Result_Get L usageNode ''output_tokens_details.reasoning_tokens''
                            else reasoning0)
           in if Exists reasoning then detail1\<lparr>usage_Detail.ReasoningTokens := Int' reasoning\<rparr>
              else detail1)"

text \<open>The detail both Claude parsers build from the usage node.\<close>

definition claudeDetail :: "jsonlib \<Rightarrow> gjson_Result \<Rightarrow> usage_Detail" where
  "claudeDetail L usageNode =
     (let detail = \<lparr>usage_Detail.InputTokens = Int' (Result_Get L usageNode ''input_tokens''),
                     usage_Detail.OutputTokens = Int' (Result_Get L usageNode ''output_tokens''),
                     usage_Detail.ReasoningTokens = 0,
                     usage_Detail.CachedTokens = Int' (Result_Get L usageNode ''cache_read_input_tokens''),
                     usage_Detail.TotalTokens = 0\<rparr>;
          detail1 = (if usage_Detail.CachedTokens detail = 0
                     then detail\<lparr>usage_Detail.CachedTokens :=
                                   Int' (Result_Get L usageNode ''cache_creation_input_tokens'')\<rparr>
                     else detail)
      in detail1\<lparr>usage_Detail.TotalTokens :=
                    usage_Detail.InputTokens detail1 + usage_Detail.OutputTokens detail1\<rparr>)"

definition parseClaudeUsage :: "jsonlib \<Rightarrow> bytes \<Rightarrow> usage_Detail" where
  "parseClaudeUsage L data =
     (let usageNode = Result_Get L (ParseBytes L data) ''usage''
      in if \<not> Exists usageNode then emptyDetail else claudeDetail L usageNode)"

definition jsonPayload :: "bytes \<Rightarrow> bytes" where
  "jsonPayload line =
     (let trimmed = TrimSpace line
      in if length trimmed = 0 then []
         else if trimmed = ''[DONE]'' then []
         else if prefix ''event:'' trimmed then []
         else
           let trimmed1 = (if prefix ''data:'' trimmed then TrimSpace (drop 5 trimmed) else trimmed)
           in if length trimmed1 = 0 \<or> hd trimmed1 \<noteq> CHR ''{'' then [] else trimmed1)"

definition parseClaudeStreamUsage :: "jsonlib \<Rightarrow> bytes \<Rightarrow> usage_Detail \<times> bool" where
  "parseClaudeStreamUsage L line =
     (let payload = jsonPayload line
      in if length payload = 0 \<or> \<not> ValidBytes L payload then (emptyDetail, False)
         else
           let usageNode = GetBytes L payload ''usage''
           in if \<not> Exists usageNode then (emptyDetail, False)
              else (claudeDetail L usageNode, True))"


subsection \<open>The streaming usage filter\<close>

text \<open>
  The correlation memory \<open>stopChunkWithoutUsage\<close> is a \<open>sync.Map\<close> from trace id to an
  empty struct: a set of trace ids. \<open>rememberStopWithoutUsage\<close> stores the id; the
  timer it starts deletes the id ten minutes later, outside the call modelled here.
\<close>

type_synonym memory = "string set"

definition rememberStopWithoutUsage :: "string \<Rightarrow> memory \<Rightarrow> memory" where
  "rememberStopWithoutUsage traceID mem = insert traceID mem"

definition hasUsageMetadata :: "jsonlib \<Rightarrow> bytes \<Rightarrow> bool" where
  "hasUsageMetadata L jsonBytes =
     (if length jsonBytes = 0 \<or> \<not> ValidBytes L jsonBytes then False
      else if Exists (GetBytes L jsonBytes ''usageMetadata'') then True
      else if Exists (GetBytes L jsonBytes ''response.usageMetadata'') then True
      else False)"

text \<open>The finish reason both functions below look up: \<open>candidates.0.finishReason\<close>, and
  \<open>response.candidates.0.finishReason\<close> when the first does not exist.\<close>

definition finishReasonOf :: "jsonlib \<Rightarrow> bytes \<Rightarrow> gjson_Result" where
  "finishReasonOf L jsonBytes =
     (let finishReason = GetBytes L jsonBytes ''candidates.0.finishReason''
      in if \<not> Exists finishReason then GetBytes L jsonBytes ''response.candidates.0.finishReason''
         else finishReason)"

definition isStopChunkWithoutUsage :: "jsonlib \<Rightarrow> bytes \<Rightarrow> bool" where
  "isStopChunkWithoutUsage L jsonBytes =
     (if length jsonBytes = 0 \<or> \<not> ValidBytes L jsonBytes then False
      else
        let finishReason = finishReasonOf L jsonBytes;
            trimmed = TrimSpace (String finishReason)
        in if \<not> Exists finishReason \<or> trimmed = [] then False
           else \<not> hasUsageMetadata L jsonBytes)"

definition StripUsageMetadataFromJSON :: "jsonlib \<Rightarrow> bytes \<Rightarrow> bytes \<times> bool" where
  "StripUsageMetadataFromJSON L rawJSON =
     (let jsonBytes = TrimSpace rawJSON
      in if length jsonBytes = 0 \<or> \<not> ValidBytes L jsonBytes then (rawJSON, False)
         else
           let finishReason = finishReasonOf L jsonBytes;
               terminalReason = (Exists finishReason \<and> TrimSpace (String finishReason) \<noteq> []);
               usageMetadata0 = GetBytes L jsonBytes ''usageMetadata'';
               usageMetadata = (if \<not> Exists usageMetadata0
                                then GetBytes L jsonBytes ''response.usageMetadata''
                                else usageMetadata0)
           in if terminalReason then (rawJSON, False)
              else if \<not> Exists usageMetadata then (rawJSON, False)
              else
                let top = GetBytes L jsonBytes ''usageMetadata'';
                    (cleaned1, changed1) =
                       (if Exists top
                        then (DeleteBytes L (SetRawBytes L jsonBytes ''cpaUsageMetadata'' (Raw top))
                                ''usageMetadata'', True)
                        else (jsonBytes, False));
                    wrapped = GetBytes L cleaned1 ''response.usageMetadata''
                in if Exists wrapped
                   then (DeleteBytes L
                           (SetRawBytes L cleaned1 ''response.cpaUsageMetadata'' (Raw wrapped))
                           ''response.usageMetadata'', True)
                   else (cleaned1, changed1))"

text \<open>The state of the loop over the lines of \<open>FilterSSEUsageMetadata\<close>.\<close>

record filterState =
  modified :: bool
  foundData :: bool
  stopChunkWithoutUsage :: memory

text \<open>One turn of the loop: the line that stands at this index afterwards, and the
  state afterwards. Every \<open>continue\<close> leaves the line as it is.\<close>

definition filterLine :: "jsonlib \<Rightarrow> bytes \<Rightarrow> filterState \<Rightarrow> bytes \<times> filterState" where
  "filterLine L line st =
     (let trimmed = TrimSpace line
      in if length trimmed = 0 \<or> \<not> prefix ''data:'' trimmed then (line, st)
         else
           let st1 = st\<lparr>foundData := True\<rparr>
           in case Index line ''data:'' of
                None \<Rightarrow> (line, st1)
              | Some dataIdx \<Rightarrow>
                  let rawJSON = TrimSpace (drop (dataIdx + 5) line);
                      traceID = String (GetBytes L rawJSON ''traceId'')
                  in if isStopChunkWithoutUsage L rawJSON \<and> traceID \<noteq> []
                     then (line, st1\<lparr>stopChunkWithoutUsage :=
                                        rememberStopWithoutUsage traceID (stopChunkWithoutUsage st1)\<rparr>)
                     else if traceID \<noteq> [] \<and> traceID \<in> stopChunkWithoutUsage st1
                               \<and> hasUsageMetadata L rawJSON
                     then (line, st1\<lparr>stopChunkWithoutUsage := stopChunkWithoutUsage st1 - {traceID}\<rparr>)
                     else
                       (case StripUsageMetadataFromJSON L rawJSON of
                          (cleaned, changed) \<Rightarrow>
                            if \<not> changed then (line, st1)
                            else (take dataIdx line @ ''data:''
                                    @ (if length cleaned > 0 then CHR 0x20 # cleaned else []),
                                  st1\<lparr>modified := True\<rparr>)))"

fun filterLines :: "jsonlib \<Rightarrow> bytes list \<Rightarrow> filterState \<Rightarrow> bytes list \<times> filterState" where
  "filterLines L [] st = ([], st)"
| "filterLines L (line # rest) st =
     (case filterLine L line st of
        (line', st') \<Rightarrow>
          (case filterLines L rest st' of
             (rest', st'') \<Rightarrow> (line' # rest', st'')))"

definition FilterSSEUsageMetadata :: "jsonlib \<Rightarrow> bytes \<Rightarrow> memory \<Rightarrow> bytes \<times> memory" where
  "FilterSSEUsageMetadata L payload mem =
     (if length payload = 0 then (payload, mem)
      else
        case filterLines L (SplitLines payload)
               \<lparr>modified = False, foundData = False, stopChunkWithoutUsage = mem\<rparr> of
          (lines, st) \<Rightarrow>
            if \<not> modified st then
              (if \<not> foundData st then
                 (case StripUsageMetadataFromJSON L (TrimSpace payload) of
                    (cleaned, changed) \<Rightarrow>
                      if \<not> changed then (payload, stopChunkWithoutUsage st)
                      else (cleaned, stopChunkWithoutUsage st))
               else (payload, stopChunkWithoutUsage st))
            else (JoinLines lines, stopChunkWithoutUsage st))"

text \<open>What the loop takes for a data line, and the JSON it reads from one.\<close>

definition isDataLine :: "bytes \<Rightarrow> bool" where
  "isDataLine line \<longleftrightarrow> length (TrimSpace line) \<noteq> 0 \<and> prefix ''data:'' (TrimSpace line)"

definition chunkOf :: "bytes \<Rightarrow> bytes" where
  "chunkOf line =
     (case Index line ''data:'' of
        None \<Rightarrow> []
      | Some dataIdx \<Rightarrow> TrimSpace (drop (dataIdx + 5) line))"


text \<open>Names for what the claims speak of: a chunk that declares a non-empty finish
  reason, the trace id of a data line, a line the loop has no reason to rewrite, and the
  state the loop starts in.\<close>

definition declaresFinishReason :: "jsonlib \<Rightarrow> bytes \<Rightarrow> bool" where
  "declaresFinishReason L jsonBytes \<longleftrightarrow>
     Exists (finishReasonOf L jsonBytes) \<and> TrimSpace (String (finishReasonOf L jsonBytes)) \<noteq> []"

definition traceIdOf :: "jsonlib \<Rightarrow> bytes \<Rightarrow> string" where
  "traceIdOf L line = String (GetBytes L (chunkOf line) ''traceId'')"

definition keepsLine :: "jsonlib \<Rightarrow> bytes \<Rightarrow> bool" where
  "keepsLine L line \<longleftrightarrow>
     \<not> isDataLine line \<or> declaresFinishReason L (chunkOf line)
     \<or> \<not> snd (StripUsageMetadataFromJSON L (chunkOf line))"

definition startState :: "memory \<Rightarrow> filterState" where
  "startState mem = \<lparr>modified = False, foundData = False, stopChunkWithoutUsage = mem\<rparr>"

section \<open>The statistics store (RequestStatistics)\<close>

record TokenStats =
  InputTokens :: int64
  OutputTokens :: int64
  ReasoningTokens :: int64
  CachedTokens :: int64
  TotalTokens :: int64

record RequestDetail =
  Timestamp :: Time
  Source :: string
  AuthIndex :: string
  Tokens :: TokenStats
  Failed :: bool

text \<open>
  A Go map is an association list: \<^const>\<open>map_of\<close> reads a key, \<^const>\<open>AList.update\<close>
  writes one (in place when the key is there, at the end otherwise). A \<open>*modelStats\<close>
  or \<open>*apiStats\<close> held by a map is the value stored under its key: the code only ever
  reaches one through the map that holds it, and never stores nil.
\<close>

record modelStats =
  TotalRequests :: int64
  TotalTokens :: int64
  Details :: "RequestDetail list"

record apiStats =
  TotalRequests :: int64
  TotalTokens :: int64
  Models :: "(string \<times> modelStats) list"

record RequestStatistics =
  totalRequests :: int64
  successCount :: int64
  failureCount :: int64
  totalTokens :: int64
  apis :: "(string \<times> apiStats) list"
  requestsByDay :: "(string \<times> int64) list"
  requestsByHour :: "(int \<times> int64) list"
  tokensByDay :: "(string \<times> int64) list"
  tokensByHour :: "(int \<times> int64) list"

record ModelSnapshot =
  TotalRequests :: int64
  TotalTokens :: int64
  Details :: "RequestDetail list"

record APISnapshot =
  TotalRequests :: int64
  TotalTokens :: int64
  Models :: "(string \<times> ModelSnapshot) list"

record StatisticsSnapshot =
  TotalRequests :: int64
  SuccessCount :: int64
  FailureCount :: int64
  TotalTokens :: int64
  APIs :: "(string \<times> APISnapshot) list"
  RequestsByDay :: "(string \<times> int64) list"
  RequestsByHour :: "(string \<times> int64) list"
  TokensByDay :: "(string \<times> int64) list"
  TokensByHour :: "(string \<times> int64) list"



definition normaliseDetail :: "usage_Detail \<Rightarrow> TokenStats" where
  "normaliseDetail detail =
     (let tokens = \<lparr>TokenStats.InputTokens = usage_Detail.InputTokens detail,
                     TokenStats.OutputTokens = usage_Detail.OutputTokens detail,
                     TokenStats.ReasoningTokens = usage_Detail.ReasoningTokens detail,
                     TokenStats.CachedTokens = usage_Detail.CachedTokens detail,
                     TokenStats.TotalTokens = usage_Detail.TotalTokens detail\<rparr>;
          tokens1 = (if TokenStats.TotalTokens tokens = 0
                     then tokens\<lparr>TokenStats.TotalTokens :=
                            usage_Detail.InputTokens detail + usage_Detail.OutputTokens detail
                            + usage_Detail.ReasoningTokens detail\<rparr>
                     else tokens)
      in if TokenStats.TotalTokens tokens1 = 0
         then tokens1\<lparr>TokenStats.TotalTokens :=
                usage_Detail.InputTokens detail + usage_Detail.OutputTokens detail
                + usage_Detail.ReasoningTokens detail + usage_Detail.CachedTokens detail\<rparr>
         else tokens1)"

definition normaliseTokenStats :: "TokenStats \<Rightarrow> TokenStats" where
  "normaliseTokenStats tokens =
     (let tokens1 = (if TokenStats.TotalTokens tokens = 0
                     then tokens\<lparr>TokenStats.TotalTokens :=
                            TokenStats.InputTokens tokens + TokenStats.OutputTokens tokens
                            + TokenStats.ReasoningTokens tokens\<rparr>
                     else tokens)
      in if TokenStats.TotalTokens tokens1 = 0
         then tokens1\<lparr>TokenStats.TotalTokens :=
                TokenStats.InputTokens tokens1 + TokenStats.OutputTokens tokens1
                + TokenStats.ReasoningTokens tokens1 + TokenStats.CachedTokens tokens1\<rparr>
         else tokens1)"

text \<open>\<open>m[k] += d\<close> on a map of counters: a missing key reads as zero.\<close>

definition addTo :: "'k \<Rightarrow> int64 \<Rightarrow> ('k \<times> int64) list \<Rightarrow> ('k \<times> int64) list" where
  "addTo k d m = AList.update k ((case map_of m k of None \<Rightarrow> 0 | Some v \<Rightarrow> v) + d) m"

definition updateAPIStats :: "apiStats \<Rightarrow> string \<Rightarrow> RequestDetail \<Rightarrow> apiStats" where
  "updateAPIStats stats modelName detail =
     (let tt = TokenStats.TotalTokens (Tokens detail);
          modelStatsValue = (case map_of (apiStats.Models stats) modelName of
                               None \<Rightarrow> \<lparr>modelStats.TotalRequests = 0, modelStats.TotalTokens = 0,
                                         modelStats.Details = []\<rparr>
                             | Some ms \<Rightarrow> ms)
      in \<lparr>apiStats.TotalRequests = apiStats.TotalRequests stats + 1,
          apiStats.TotalTokens = apiStats.TotalTokens stats + tt,
          apiStats.Models =
            AList.update modelName
              \<lparr>modelStats.TotalRequests = modelStats.TotalRequests modelStatsValue + 1,
               modelStats.TotalTokens = modelStats.TotalTokens modelStatsValue + tt,
               modelStats.Details = modelStats.Details modelStatsValue @ [detail]\<rparr>
              (apiStats.Models stats)\<rparr>)"

text \<open>The \<open>*apiStats\<close> registered under a name, made and stored when there is none.\<close>

definition emptyAPIStats :: apiStats where
  "emptyAPIStats = \<lparr>apiStats.TotalRequests = 0, apiStats.TotalTokens = 0, apiStats.Models = []\<rparr>"

definition ensureAPI :: "string \<Rightarrow> RequestStatistics \<Rightarrow> RequestStatistics" where
  "ensureAPI name s =
     (case map_of (apis s) name of
        None \<Rightarrow> s\<lparr>apis := AList.update name emptyAPIStats (apis s)\<rparr>
      | Some stats \<Rightarrow> s)"

definition statsOf :: "string \<Rightarrow> RequestStatistics \<Rightarrow> apiStats" where
  "statsOf name s = (case map_of (apis s) name of None \<Rightarrow> emptyAPIStats | Some stats \<Rightarrow> stats)"

text \<open>\<open>Record\<close>. \<open>enabled\<close> is the flag \<open>statisticsEnabled\<close>, \<open>now\<close> what
  \<open>time.Now()\<close> returns; the local \<open>totalTokens\<close> of the source is \<open>total\<close> here.\<close>

definition Record :: "bool \<Rightarrow> Time \<Rightarrow> usage_Record \<Rightarrow> RequestStatistics \<Rightarrow> RequestStatistics" where
  "Record enabled now record s =
     (if \<not> enabled then s
      else
        let timestamp = (if IsZero (RequestedAt record) then now else RequestedAt record);
            detail = normaliseDetail (Detail record);
            total = TokenStats.TotalTokens detail;
            statsKey = (if APIKey record \<noteq> [] then APIKey record
                        else if Method record \<noteq> [] \<and> Path record \<noteq> []
                          then Method record @ '' '' @ Path record
                        else if Provider record \<noteq> [] then Provider record
                        else ''unknown'');
            failed = usage_Record.Failed record;
            modelName = (if Model record = [] then ''unknown'' else Model record);
            dayKey = Day timestamp;
            hourKey = Hour timestamp;
            s1 = s\<lparr>totalRequests := totalRequests s + 1,
                   successCount := (if \<not> failed then successCount s + 1 else successCount s),
                   failureCount := (if \<not> failed then failureCount s else failureCount s + 1),
                   totalTokens := totalTokens s + total\<rparr>;
            s2 = ensureAPI statsKey s1;
            s3 = s2\<lparr>apis := AList.update statsKey
                          (updateAPIStats (statsOf statsKey s2) modelName
                             \<lparr>Timestamp = timestamp, Source = usage_Record.Source record,
                              AuthIndex = usage_Record.AuthIndex record, Tokens = detail,
                              Failed = failed\<rparr>)
                          (apis s2)\<rparr>
        in s3\<lparr>requestsByDay := addTo dayKey 1 (requestsByDay s3),
              requestsByHour := addTo hourKey 1 (requestsByHour s3),
              tokensByDay := addTo dayKey total (tokensByDay s3),
              tokensByHour := addTo hourKey total (tokensByHour s3)\<rparr>)"

text \<open>\<open>fmt.Sprintf\<close> with \<open>%d\<close> on an \<open>int64\<close> and \<open>%t\<close> on a \<open>bool\<close>.\<close>

fun showDigits :: "nat \<Rightarrow> nat \<Rightarrow> string" where
  "showDigits 0 n = []"
| "showDigits (Suc fuel) n =
     (if n < 10 then [char_of (48 + n)]
      else showDigits fuel (n div 10) @ [char_of (48 + n mod 10)])"

definition showNat :: "nat \<Rightarrow> string" where
  "showNat n = showDigits (Suc n) n"

definition showInt64 :: "int64 \<Rightarrow> string" where
  "showInt64 w = (if sint w < 0 then CHR ''-'' # showNat (nat (- sint w)) else showNat (nat (sint w)))"

definition showBool :: "bool \<Rightarrow> string" where
  "showBool b = (if b then ''true'' else ''false'')"

definition dedupKey :: "string \<Rightarrow> string \<Rightarrow> RequestDetail \<Rightarrow> string" where
  "dedupKey apiName modelName detail =
     (let timestamp = UTC_RFC3339Nano (Timestamp detail);
          tokens = normaliseTokenStats (Tokens detail)
      in apiName @ ''|'' @ modelName @ ''|'' @ timestamp @ ''|''
         @ RequestDetail.Source detail @ ''|'' @ RequestDetail.AuthIndex detail @ ''|''
         @ showBool (RequestDetail.Failed detail) @ ''|''
         @ showInt64 (TokenStats.InputTokens tokens) @ ''|''
         @ showInt64 (TokenStats.OutputTokens tokens) @ ''|''
         @ showInt64 (TokenStats.ReasoningTokens tokens) @ ''|''
         @ showInt64 (TokenStats.CachedTokens tokens) @ ''|''
         @ showInt64 (TokenStats.TotalTokens tokens))"








section \<open>Opening the persistent store (internal/database/database.go)\<close>

record Config =
  Driver :: string
  DSN :: string
  LogDir :: string

text \<open>A database path is the string given, or \<open>filepath.Join(dir, name)\<close>; a dialector
  is what \<open>mysql.Open\<close> or \<open>sqlite.Open\<close> was called with.\<close>

datatype dbPath = Literal string | Join string string

datatype Dialector = MySQL string | SQLite dbPath

text \<open>The path both SQLite branches compute, and the directories they ask
  \<open>os.MkdirAll\<close> for.\<close>

definition sqlitePath :: "Config \<Rightarrow> dbPath" where
  "sqlitePath cfg =
     (if DSN cfg = [] then
        (if LogDir cfg \<noteq> [] then Join (LogDir cfg) ''cliproxy.db'' else Literal ''cliproxy.db'')
      else Literal (DSN cfg))"

definition sqliteMkdirs :: "Config \<Rightarrow> string list" where
  "sqliteMkdirs cfg = (if DSN cfg = [] \<and> LogDir cfg \<noteq> [] then [LogDir cfg] else [])"

text \<open>The \<open>switch\<close> of \<open>Init\<close>: the dialector, and the directories made on the way.\<close>

definition selectDialector :: "Config \<Rightarrow> Dialector \<times> string list" where
  "selectDialector cfg =
     (let driver = ToLower (Driver cfg)
      in if driver = ''mysql'' then (MySQL (DSN cfg), [])
         else if driver = ''sqlite'' \<or> driver = ''sqlite3'' then (SQLite (sqlitePath cfg), sqliteMkdirs cfg)
         else (SQLite (sqlitePath cfg), sqliteMkdirs cfg))"

text \<open>The package state: the handle \<open>DB\<close> (the dialector it was opened with), whether
  the package's \<open>once\<close> has fired, and the directories made so far. \<open>gormOpen\<close> is
  \<open>gorm.Open\<close>: the error it returns for a dialector, if any. A failed migration is
  logged and changes nothing here.\<close>

record dbState =
  DB :: "Dialector option"
  initOnce :: bool
  madeDirs :: "string list"

definition Init :: "(Dialector \<Rightarrow> string option) \<Rightarrow> Config \<Rightarrow> dbState \<Rightarrow> string option \<times> dbState" where
  "Init gormOpen cfg st =
     (if initOnce st then (None, st)
      else
        case selectDialector cfg of
          (dialector, dirs) \<Rightarrow>
            (case gormOpen dialector of
               Some openErr \<Rightarrow>
                 (Some (''failed to connect to database: '' @ openErr),
                  st\<lparr>initOnce := True, madeDirs := madeDirs st @ dirs\<rparr>)
             | None \<Rightarrow>
                 (None, st\<lparr>DB := Some dialector, initOnce := True, madeDirs := madeDirs st @ dirs\<rparr>)))"


section \<open>A model of the JSON library\<close>

text \<open>
  A concrete library to run the functions above on JSON text, and to say what the two
  edits of the filter do to a document. It covers JSON text made of objects, arrays,
  strings without escape sequences, integer numbers, \<open>true\<close>, \<open>false\<close> and \<open>null\<close>,
  with white space between tokens; text outside this fragment does not parse here.
  A number keeps its token, a string its bytes between the quotes, an object the order
  and the duplicates of its members.
\<close>

datatype json =
    JNull
  | JBool bool
  | JNumber string
  | JString string
  | JArray "json list"
  | JObject "(string \<times> json) list"

definition jsonWS :: "char \<Rightarrow> bool" where
  "jsonWS c \<longleftrightarrow> c = CHR 0x20 \<or> c = CHR 0x09 \<or> c = CHR 0x0A \<or> c = CHR 0x0D"

definition skipWS :: "string \<Rightarrow> string" where
  "skipWS s = dropWhile jsonWS s"

definition isDigit :: "char \<Rightarrow> bool" where
  "isDigit c \<longleftrightarrow> 48 \<le> (of_char c :: nat) \<and> (of_char c :: nat) \<le> 57"

definition strChar :: "char \<Rightarrow> bool" where
  "strChar c \<longleftrightarrow> c \<noteq> CHR 0x22 \<and> c \<noteq> CHR 0x5C \<and> 32 \<le> (of_char c :: nat)"

definition scanString :: "string \<Rightarrow> (string \<times> string) option" where
  "scanString s =
     (case dropWhile strChar s of
        [] \<Rightarrow> None
      | c # r \<Rightarrow> if c = CHR 0x22 then Some (takeWhile strChar s, r) else None)"

definition numChar :: "char \<Rightarrow> bool" where
  "numChar c \<longleftrightarrow> isDigit c \<or> c = CHR ''-''"

definition validDigits :: "string \<Rightarrow> bool" where
  "validDigits ds \<longleftrightarrow> ds \<noteq> [] \<and> list_all isDigit ds \<and> (hd ds = CHR ''0'' \<longrightarrow> ds = ''0'')"

definition validNumber :: "string \<Rightarrow> bool" where
  "validNumber tok \<longleftrightarrow>
     (case tok of
        [] \<Rightarrow> False
      | c # ds \<Rightarrow> if c = CHR ''-'' then validDigits ds else validDigits tok)"

fun parseValue :: "nat \<Rightarrow> string \<Rightarrow> (json \<times> string) option"
  and parseElems :: "nat \<Rightarrow> string \<Rightarrow> (json list \<times> string) option"
  and parseMembers :: "nat \<Rightarrow> string \<Rightarrow> ((string \<times> json) list \<times> string) option"
where
  "parseValue 0 s = None"
| "parseValue (Suc n) s =
     (case skipWS s of
        [] \<Rightarrow> None
      | c # r \<Rightarrow>
          if c = CHR ''{'' then
            (case skipWS r of
               [] \<Rightarrow> None
             | c' # r' \<Rightarrow>
                 if c' = CHR ''}'' then Some (JObject [], r')
                 else (case parseMembers n r of
                         None \<Rightarrow> None
                       | Some (ms, r'') \<Rightarrow> Some (JObject ms, r'')))
          else if c = CHR ''['' then
            (case skipWS r of
               [] \<Rightarrow> None
             | c' # r' \<Rightarrow>
                 if c' = CHR '']'' then Some (JArray [], r')
                 else (case parseElems n r of
                         None \<Rightarrow> None
                       | Some (vs, r'') \<Rightarrow> Some (JArray vs, r'')))
          else if c = CHR 0x22 then
            (case scanString r of
               None \<Rightarrow> None
             | Some (body, r') \<Rightarrow> Some (JString body, r'))
          else if c = CHR ''t'' then
            (if prefix ''rue'' r then Some (JBool True, drop 3 r) else None)
          else if c = CHR ''f'' then
            (if prefix ''alse'' r then Some (JBool False, drop 4 r) else None)
          else if c = CHR ''n'' then
            (if prefix ''ull'' r then Some (JNull, drop 3 r) else None)
          else if validNumber (takeWhile numChar (c # r))
            then Some (JNumber (takeWhile numChar (c # r)), dropWhile numChar (c # r))
          else None)"
| "parseElems 0 s = None"
| "parseElems (Suc n) s =
     (case parseValue n s of
        None \<Rightarrow> None
      | Some (v, r) \<Rightarrow>
          (case skipWS r of
             [] \<Rightarrow> None
           | c # r' \<Rightarrow>
               if c = CHR '','' then
                 (case parseElems n r' of
                    None \<Rightarrow> None
                  | Some (vs, r'') \<Rightarrow> Some (v # vs, r''))
               else if c = CHR '']'' then Some ([v], r')
               else None))"
| "parseMembers 0 s = None"
| "parseMembers (Suc n) s =
     (case skipWS s of
        [] \<Rightarrow> None
      | c # r \<Rightarrow>
          if c \<noteq> CHR 0x22 then None
          else
            (case scanString r of
               None \<Rightarrow> None
             | Some (k, r1) \<Rightarrow>
                 (case skipWS r1 of
                    [] \<Rightarrow> None
                  | c1 # r2 \<Rightarrow>
                      if c1 \<noteq> CHR '':'' then None
                      else
                        (case parseValue n r2 of
                           None \<Rightarrow> None
                         | Some (v, r3) \<Rightarrow>
                             (case skipWS r3 of
                                [] \<Rightarrow> None
                              | c3 # r4 \<Rightarrow>
                                  if c3 = CHR '','' then
                                    (case parseMembers n r4 of
                                       None \<Rightarrow> None
                                     | Some (ms, r5) \<Rightarrow> Some ((k, v) # ms, r5))
                                  else if c3 = CHR ''}'' then Some ([(k, v)], r4)
                                  else None)))))"

definition parseJSON :: "bytes \<Rightarrow> json option" where
  "parseJSON s =
     (case parseValue (Suc (length s)) s of
        None \<Rightarrow> None
      | Some (j, r) \<Rightarrow> if skipWS r = [] then Some j else None)"

definition quoted :: "string \<Rightarrow> string" where
  "quoted s = CHR 0x22 # s @ [CHR 0x22]"

fun commaSep :: "string list \<Rightarrow> string" where
  "commaSep [] = []"
| "commaSep [x] = x"
| "commaSep (x # xs) = x @ CHR '','' # commaSep xs"

primrec render :: "json \<Rightarrow> string" where
  "render JNull = ''null''"
| "render (JBool b) = (if b then ''true'' else ''false'')"
| "render (JNumber tok) = tok"
| "render (JString s) = quoted s"
| "render (JArray vs) = CHR ''['' # commaSep (map render vs) @ '']''"
| "render (JObject ms) =
     CHR ''{'' # commaSep (map (\<lambda>(k, r). quoted k @ CHR '':'' # r) (map (map_prod id render) ms)) @ ''}''"



text \<open>Documents on which parsing and printing are inverse: every number token is an
  integer literal, every string and key is free of quotes, backslashes and control bytes.\<close>

fun wf :: "json \<Rightarrow> bool" where
  "wf JNull = True"
| "wf (JBool b) = True"
| "wf (JNumber tok) = validNumber tok"
| "wf (JString s) = list_all strChar s"
| "wf (JArray vs) = (\<forall>v \<in> set vs. wf v)"
| "wf (JObject ms) = (\<forall>m \<in> set ms. list_all strChar (fst m) \<and> wf (snd m))"

text \<open>
  \<open>gjson.Get\<close> on a parsed document: the path is split at its dots; a component
  selects the first member of an object with that key, or the element of an array at
  that decimal index. (The paths of this code hold no wildcard, query or modifier.)
\<close>

definition digitVal :: "char \<Rightarrow> nat" where
  "digitVal c = (of_char c :: nat) - 48"

definition natOfDigits :: "string \<Rightarrow> nat" where
  "natOfDigits ds = foldl (\<lambda>n c. 10 * n + digitVal c) 0 ds"

definition arrayIndex :: "string \<Rightarrow> nat option" where
  "arrayIndex k = (if k \<noteq> [] \<and> list_all isDigit k then Some (natOfDigits k) else None)"

definition child :: "json \<Rightarrow> string \<Rightarrow> json option" where
  "child j k =
     (case j of
        JObject ms \<Rightarrow> map_of ms k
      | JArray vs \<Rightarrow>
          (case arrayIndex k of
             None \<Rightarrow> None
           | Some i \<Rightarrow> if i < length vs then Some (vs ! i) else None)
      | _ \<Rightarrow> None)"

fun jsonGet :: "json \<Rightarrow> string list \<Rightarrow> json option" where
  "jsonGet j [] = Some j"
| "jsonGet j (k # ks) = (case child j k of None \<Rightarrow> None | Some v \<Rightarrow> jsonGet v ks)"

definition splitPath :: "string \<Rightarrow> string list" where
  "splitPath path = splitOn (CHR ''.'') path"

text \<open>gjson's \<open>parseInt\<close>: an optional minus sign and decimal digits, wrapping in 64 bits;
  zero for anything else. \<open>Result.Int()\<close> of an integer token is this value.\<close>

definition parseInt :: "string \<Rightarrow> int64" where
  "parseInt s =
     (case s of
        [] \<Rightarrow> 0
      | c # ds \<Rightarrow>
          if c = CHR ''-''
          then (if ds \<noteq> [] \<and> list_all isDigit ds then - (word_of_nat (natOfDigits ds)) else 0)
          else (if list_all isDigit s then word_of_nat (natOfDigits s) else 0))"

definition noResult :: gjson_Result where
  "noResult = \<lparr>Exists = False, Raw = [], String = [], Int' = 0, IsArray = False\<rparr>"

definition resultOf :: "json \<Rightarrow> gjson_Result" where
  "resultOf v =
     \<lparr>Exists = True,
      Raw = render v,
      String = (case v of JNull \<Rightarrow> [] | JNumber tok \<Rightarrow> tok | JString s \<Rightarrow> s | _ \<Rightarrow> render v),
      Int' = (case v of
                JBool b \<Rightarrow> (if b then 1 else 0)
              | JNumber tok \<Rightarrow> parseInt tok
              | JString s \<Rightarrow> parseInt s
              | _ \<Rightarrow> 0),
      IsArray = (case v of JArray vs \<Rightarrow> True | _ \<Rightarrow> False)\<rparr>"

text \<open>
  \<open>sjson.SetRawBytes\<close> and \<open>sjson.DeleteBytes\<close> on a parsed document, for the case
  this code reaches: every container on the path is an object, and all but the last key
  exist. Setting replaces the value of the first member with the key, or appends a new
  member when there is none; deleting removes the first member with the key. \<open>None\<close> is
  a case outside the model for setting, and "nothing to delete" for deleting.
\<close>

fun jsonSet :: "string list \<Rightarrow> json \<Rightarrow> json \<Rightarrow> json option" where
  "jsonSet [] v j = None"
| "jsonSet [k] v j = (case j of JObject ms \<Rightarrow> Some (JObject (AList.update k v ms)) | _ \<Rightarrow> None)"
| "jsonSet (k # ks) v j =
     (case j of
        JObject ms \<Rightarrow>
          (case map_of ms k of
             None \<Rightarrow> None
           | Some c \<Rightarrow>
               (case jsonSet ks v c of
                  None \<Rightarrow> None
                | Some c' \<Rightarrow> Some (JObject (AList.update k c' ms))))
      | _ \<Rightarrow> None)"

fun deleteFirst :: "string \<Rightarrow> (string \<times> json) list \<Rightarrow> (string \<times> json) list" where
  "deleteFirst k [] = []"
| "deleteFirst k (m # ms) = (if fst m = k then ms else m # deleteFirst k ms)"

fun jsonDelete :: "string list \<Rightarrow> json \<Rightarrow> json option" where
  "jsonDelete [] j = None"
| "jsonDelete [k] j =
     (case j of
        JObject ms \<Rightarrow> (if map_of ms k = None then None else Some (JObject (deleteFirst k ms)))
      | _ \<Rightarrow> None)"
| "jsonDelete (k # ks) j =
     (case j of
        JObject ms \<Rightarrow>
          (case map_of ms k of
             None \<Rightarrow> None
           | Some c \<Rightarrow>
               (case jsonDelete ks c of
                  None \<Rightarrow> None
                | Some c' \<Rightarrow> Some (JObject (AList.update k c' ms))))
      | _ \<Rightarrow> None)"

text \<open>The library on bytes. What gjson answers on text that is not valid JSON is not
  modelled: it reads as "does not exist".\<close>

definition gj_ValidBytes :: "bytes \<Rightarrow> bool" where
  "gj_ValidBytes b \<longleftrightarrow> parseJSON b \<noteq> None"

definition gj_GetBytes :: "bytes \<Rightarrow> string \<Rightarrow> gjson_Result" where
  "gj_GetBytes b path =
     (case parseJSON b of
        None \<Rightarrow> noResult
      | Some j \<Rightarrow> (case jsonGet j (splitPath path) of None \<Rightarrow> noResult | Some v \<Rightarrow> resultOf v))"

definition gj_ParseBytes :: "bytes \<Rightarrow> gjson_Result" where
  "gj_ParseBytes b = (case parseJSON b of None \<Rightarrow> noResult | Some j \<Rightarrow> resultOf j)"

definition gj_ForEach :: "gjson_Result \<Rightarrow> gjson_Result list" where
  "gj_ForEach t =
     (case parseJSON (Raw t) of
        Some (JArray vs) \<Rightarrow> map resultOf vs
      | Some (JObject ms) \<Rightarrow> map (\<lambda>m. resultOf (snd m)) ms
      | _ \<Rightarrow> [])"

definition gj_SetRawBytes :: "bytes \<Rightarrow> string \<Rightarrow> bytes \<Rightarrow> bytes" where
  "gj_SetRawBytes b path raw =
     (case parseJSON b of
        None \<Rightarrow> []
      | Some j \<Rightarrow>
          (case parseJSON raw of
             None \<Rightarrow> []
           | Some v \<Rightarrow> (case jsonSet (splitPath path) v j of None \<Rightarrow> [] | Some j' \<Rightarrow> render j')))"

definition gj_DeleteBytes :: "bytes \<Rightarrow> string \<Rightarrow> bytes" where
  "gj_DeleteBytes b path =
     (case parseJSON b of
        None \<Rightarrow> b
      | Some j \<Rightarrow> (case jsonDelete (splitPath path) j of None \<Rightarrow> b | Some j' \<Rightarrow> render j'))"

definition GJ :: jsonlib where
  "GJ = \<lparr>ValidBytes = gj_ValidBytes, GetBytes = gj_GetBytes, ParseBytes = gj_ParseBytes,
         ForEach = gj_ForEach, SetRawBytes = gj_SetRawBytes, DeleteBytes = gj_DeleteBytes\<rparr>"

subsection \<open>The edits of the filter on a document\<close>







section \<open>The reporter publishes exactly once\<close>

lemma complete_fired:
  "once u \<Longrightarrow> complete c (Some u, published) = (Some u, published)"
  by (cases c) (simp_all add: publish_def publishFailure_def ensurePublished_def publishWithOutcome_def)

lemma completeAll_fired:
  "once u \<Longrightarrow> completeAll cs (Some u, published) = (Some u, published)"
  by (induction cs) (simp_all add: complete_fired)

lemma complete_first:
  "\<not> once u \<Longrightarrow> complete c (Some u, published) = (Some (u\<lparr>once := True\<rparr>), published @ [recordOf u c])"
  by (cases c)
     (simp_all add: publish_def publishFailure_def ensurePublished_def publishWithOutcome_def
        recordOf_def emptyDetail_def deriveTotal_def)

definition reporter0 :: usageReporter where
  "reporter0 =
     \<lparr>provider = ''openai'', model = ''gpt-4'', authID = ''a1'', authIndex = ''0'',
      apiKey = ''k'', source = ''s'',
      requestedAt = \<lparr>IsZero = False, UTC_RFC3339Nano = ''2024-01-02T03:04:05Z'',
                     Day = ''2024-01-02'', Hour = 3\<rparr>,
      inputPayload = [], outputPayload = [], respID = [], finishReasons = [], once = False\<rparr>"

definition detail12 :: usage_Detail where
  "detail12 =
     \<lparr>usage_Detail.InputTokens = 1, usage_Detail.OutputTokens = 2,
      usage_Detail.ReasoningTokens = 0, usage_Detail.CachedTokens = 0,
      usage_Detail.TotalTokens = 0\<rparr>"

text \<open>
  C1. On a reporter whose latch has not fired, any sequence of completion calls that
  has a first call \<open>c\<close> and any later calls \<open>cs\<close> (so every sequence of two or more)
  hands exactly one record to \<open>usage.PublishRecord\<close>: the record of the first call.
  The first call fires the latch, and the later calls change neither the reporter nor
  the list of published records.
\<close>

theorem publish_exactly_once:
  assumes "\<not> once u"
  shows "completeAll (c # cs) (Some u, published)
           = (Some (u\<lparr>once := True\<rparr>), published @ [recordOf u c])
         \<and> complete c (Some u, published)
           = (Some (u\<lparr>once := True\<rparr>), published @ [recordOf u c])
         \<and> completeAll cs (complete c (Some u, published)) = complete c (Some u, published)"
proof -
  have first: "complete c (Some u, published)
                 = (Some (u\<lparr>once := True\<rparr>), published @ [recordOf u c])"
    using assms by (rule complete_first)
  have fired: "once (u\<lparr>once := True\<rparr>)"
    by simp
  have later: "completeAll cs (Some (u\<lparr>once := True\<rparr>), published @ [recordOf u c])
                 = (Some (u\<lparr>once := True\<rparr>), published @ [recordOf u c])"
    using fired by (rule completeAll_fired)
  show ?thesis
    using first later by simp
qed

theorem publish_exactly_once_witness:
  "\<not> once reporter0
   \<and> snd (completeAll [Publish detail12, PublishFailure, EnsurePublished] (Some reporter0, []))
       = [recordOf reporter0 (Publish detail12)]
   \<and> length (snd (completeAll [Publish detail12, PublishFailure, EnsurePublished] (Some reporter0, []))) = 1"
proof -
  have fresh: "\<not> once reporter0"
    by (simp add: reporter0_def)
  show ?thesis
    using fresh
      publish_exactly_once [OF fresh, of "Publish detail12" "[PublishFailure, EnsurePublished]" "[]"]
    by (simp del: completeAll.simps complete.simps)
qed

section \<open>Capture methods under a nil receiver or an empty payload\<close>

text \<open>
  C9. \<open>SetInput\<close>, \<open>SetOutput\<close>, \<open>AppendOutput\<close> and \<open>CaptureStreamChunk\<close> return at
  their first line when the receiver is nil or the payload is empty: the reporter is
  what it was (a nil receiver is never dereferenced), whatever the JSON library does.
\<close>

theorem capture_noop:
  assumes "r = None \<or> length payload = 0"
  shows "SetInput r payload = r \<and> SetOutput r payload = r \<and> AppendOutput r payload = r
         \<and> CaptureStreamChunk L r payload = r"
  using assms
  by (auto simp: SetInput_def SetOutput_def AppendOutput_def CaptureStreamChunk_def)

theorem capture_noop_witness:
  "SetInput None ''{}'' = None \<and> SetOutput None ''{}'' = None \<and> AppendOutput None ''{}'' = None
   \<and> CaptureStreamChunk GJ None ''{}'' = None
   \<and> SetInput (Some reporter0) [] = Some reporter0 \<and> SetOutput (Some reporter0) [] = Some reporter0
   \<and> AppendOutput (Some reporter0) [] = Some reporter0
   \<and> CaptureStreamChunk GJ (Some reporter0) [] = Some reporter0"
  using capture_noop [of None "''{}''" GJ] capture_noop [of "Some reporter0" "[]" GJ]
  by simp


section \<open>Total tokens\<close>

lemma deriveTotal_fields:
  "usage_Detail.InputTokens (deriveTotal d) = usage_Detail.InputTokens d"
  "usage_Detail.OutputTokens (deriveTotal d) = usage_Detail.OutputTokens d"
  "usage_Detail.ReasoningTokens (deriveTotal d) = usage_Detail.ReasoningTokens d"
  "usage_Detail.CachedTokens (deriveTotal d) = usage_Detail.CachedTokens d"
  by (simp_all add: deriveTotal_def Let_def)

lemma deriveTotal_total:
  "usage_Detail.TotalTokens (deriveTotal d) =
     (if usage_Detail.TotalTokens d = 0
         \<and> 0 <s usage_Detail.InputTokens d + usage_Detail.OutputTokens d + usage_Detail.ReasoningTokens d
      then usage_Detail.InputTokens d + usage_Detail.OutputTokens d + usage_Detail.ReasoningTokens d
      else usage_Detail.TotalTokens d)"
  by (simp add: deriveTotal_def Let_def)

lemma normaliseDetail_fields:
  "TokenStats.InputTokens (normaliseDetail d) = usage_Detail.InputTokens d"
  "TokenStats.OutputTokens (normaliseDetail d) = usage_Detail.OutputTokens d"
  "TokenStats.ReasoningTokens (normaliseDetail d) = usage_Detail.ReasoningTokens d"
  "TokenStats.CachedTokens (normaliseDetail d) = usage_Detail.CachedTokens d"
  by (simp_all add: normaliseDetail_def Let_def)

lemma normaliseDetail_total:
  "TokenStats.TotalTokens (normaliseDetail d) =
     (if usage_Detail.TotalTokens d \<noteq> 0 then usage_Detail.TotalTokens d
      else if usage_Detail.InputTokens d + usage_Detail.OutputTokens d + usage_Detail.ReasoningTokens d \<noteq> 0
      then usage_Detail.InputTokens d + usage_Detail.OutputTokens d + usage_Detail.ReasoningTokens d
      else usage_Detail.InputTokens d + usage_Detail.OutputTokens d + usage_Detail.ReasoningTokens d
           + usage_Detail.CachedTokens d)"
  by (simp add: normaliseDetail_def Let_def)

lemma normaliseTokenStats_total:
  "TokenStats.TotalTokens (normaliseTokenStats t) =
     (if TokenStats.TotalTokens t \<noteq> 0 then TokenStats.TotalTokens t
      else if TokenStats.InputTokens t + TokenStats.OutputTokens t + TokenStats.ReasoningTokens t \<noteq> 0
      then TokenStats.InputTokens t + TokenStats.OutputTokens t + TokenStats.ReasoningTokens t
      else TokenStats.InputTokens t + TokenStats.OutputTokens t + TokenStats.ReasoningTokens t
           + TokenStats.CachedTokens t)"
  by (simp add: normaliseTokenStats_def Let_def)

lemma normaliseTokenStats_fields:
  "TokenStats.InputTokens (normaliseTokenStats t) = TokenStats.InputTokens t"
  "TokenStats.OutputTokens (normaliseTokenStats t) = TokenStats.OutputTokens t"
  "TokenStats.ReasoningTokens (normaliseTokenStats t) = TokenStats.ReasoningTokens t"
  "TokenStats.CachedTokens (normaliseTokenStats t) = TokenStats.CachedTokens t"
  by (simp_all add: normaliseTokenStats_def Let_def)

lemma TokenStats_eqI:
  "TokenStats.InputTokens a = TokenStats.InputTokens b \<Longrightarrow>
   TokenStats.OutputTokens a = TokenStats.OutputTokens b \<Longrightarrow>
   TokenStats.ReasoningTokens a = TokenStats.ReasoningTokens b \<Longrightarrow>
   TokenStats.CachedTokens a = TokenStats.CachedTokens b \<Longrightarrow>
   TokenStats.TotalTokens a = TokenStats.TotalTokens b \<Longrightarrow> a = (b :: TokenStats)"
  by (cases a, cases b) simp

lemma normaliseTokenStats_idem:
  "normaliseTokenStats (normaliseTokenStats t) = normaliseTokenStats t"
  by (rule TokenStats_eqI)
     (simp_all add: normaliseTokenStats_fields normaliseTokenStats_total)

lemma normaliseTokenStats_normaliseDetail:
  "normaliseTokenStats (normaliseDetail d) = normaliseDetail d"
  by (rule TokenStats_eqI)
     (simp_all add: normaliseTokenStats_fields normaliseTokenStats_total normaliseDetail_fields
        normaliseDetail_total)

lemma deriveTotal_idem: "deriveTotal (deriveTotal d) = deriveTotal d"
  by (cases d) (simp add: deriveTotal_def Let_def)

definition cachedOnly :: usage_Detail where
  "cachedOnly =
     \<lparr>usage_Detail.InputTokens = 0, usage_Detail.OutputTokens = 0,
      usage_Detail.ReasoningTokens = 0, usage_Detail.CachedTokens = 9,
      usage_Detail.TotalTokens = 0\<rparr>"

definition negativeSum :: usage_Detail where
  "negativeSum =
     \<lparr>usage_Detail.InputTokens = - 3, usage_Detail.OutputTokens = 1,
      usage_Detail.ReasoningTokens = 0, usage_Detail.CachedTokens = 0,
      usage_Detail.TotalTokens = 0\<rparr>"

text \<open>The sum a zero total is derived from.\<close>

definition partsSum :: "usage_Detail \<Rightarrow> int64" where
  "partsSum d = usage_Detail.InputTokens d + usage_Detail.OutputTokens d
                  + usage_Detail.ReasoningTokens d"

lemma publishWithOutcome_fresh:
  assumes "\<not> once u"
  shows "publishWithOutcome (Some u) d failed published
           = (Some (u\<lparr>once := True\<rparr>),
              published @
              [\<lparr>Provider = provider u, Model = model u, APIKey = apiKey u,
                AuthID = authID u, AuthIndex = authIndex u, Source = source u,
                RequestedAt = requestedAt u, Failed = failed,
                Detail = d\<lparr>usage_Detail.TotalTokens :=
                            (if usage_Detail.TotalTokens d = 0 \<and> 0 <s partsSum d
                             then partsSum d else usage_Detail.TotalTokens d)\<rparr>,
                Method = [], Path = [], ClientIP = [], StatusCode = 0, LatencyMs = 0\<rparr>])"
  using assms by (simp add: publishWithOutcome_def deriveTotal_def partsSum_def Let_def)

text \<open>
  C6, as stated, fails at the reporter. A detail with zero total, zero input, output and
  reasoning counts and nine cached tokens is published by \<open>publishWithOutcome\<close> with
  total 0, not 9: the reporter never folds cached tokens in. A detail with zero total
  whose input + output + reasoning is \<open>-2\<close> is published with total 0 as well: the
  reporter takes the sum only when it is positive.
\<close>

theorem reporter_keeps_zero_total_counterexample:
  "usage_Detail.TotalTokens cachedOnly = 0 \<and> partsSum cachedOnly = 0
   \<and> usage_Detail.CachedTokens cachedOnly = 9
   \<and> map (\<lambda>r. usage_Detail.TotalTokens (Detail r))
        (snd (publishWithOutcome (Some reporter0) cachedOnly False [])) = [0]
   \<and> usage_Detail.TotalTokens negativeSum = 0 \<and> partsSum negativeSum = - 2
   \<and> map (\<lambda>r. usage_Detail.TotalTokens (Detail r))
        (snd (publishWithOutcome (Some reporter0) negativeSum False [])) = [0]"
  by (simp add: publishWithOutcome_def deriveTotal_def partsSum_def Let_def cachedOnly_def
        negativeSum_def reporter0_def word_sless_alt)


lemma normaliseDetail_eq:
  "normaliseDetail d =
     \<lparr>TokenStats.InputTokens = usage_Detail.InputTokens d,
      TokenStats.OutputTokens = usage_Detail.OutputTokens d,
      TokenStats.ReasoningTokens = usage_Detail.ReasoningTokens d,
      TokenStats.CachedTokens = usage_Detail.CachedTokens d,
      TokenStats.TotalTokens =
        (if usage_Detail.TotalTokens d \<noteq> 0 then usage_Detail.TotalTokens d
         else if partsSum d \<noteq> 0 then partsSum d
         else partsSum d + usage_Detail.CachedTokens d)\<rparr>"
  by (simp add: normaliseDetail_def partsSum_def Let_def)

lemma normaliseTokenStats_eq:
  "normaliseTokenStats t =
     t\<lparr>TokenStats.TotalTokens :=
         (if TokenStats.TotalTokens t \<noteq> 0 then TokenStats.TotalTokens t
          else if TokenStats.InputTokens t + TokenStats.OutputTokens t
                    + TokenStats.ReasoningTokens t \<noteq> 0
          then TokenStats.InputTokens t + TokenStats.OutputTokens t + TokenStats.ReasoningTokens t
          else TokenStats.InputTokens t + TokenStats.OutputTokens t + TokenStats.ReasoningTokens t
                 + TokenStats.CachedTokens t)\<rparr>"
  by (simp add: normaliseTokenStats_def Let_def)

lemma normaliseDetail_deriveTotal: "normaliseDetail (deriveTotal d) = normaliseDetail d"
  by (rule TokenStats_eqI)
     (simp_all add: normaliseDetail_fields normaliseDetail_total deriveTotal_fields
        deriveTotal_total)

lemma Record_totalTokens:
  "totalTokens (Record True now record s)
     = totalTokens s + TokenStats.TotalTokens (normaliseDetail (Detail record))"
proof -
  have e: "\<And>a x. totalTokens (ensureAPI a x) = totalTokens x"
    by (simp add: ensureAPI_def split: option.split)
  show ?thesis
    by (simp add: Record_def Let_def e)
qed

text \<open>
  C6, amended. (1) The reporter: the call of \<open>publishWithOutcome\<close> that fires the latch
  publishes the detail with its four counts as they are; a zero total becomes input +
  output + reasoning when that 64-bit sum is positive (a signed comparison) and stays
  zero otherwise, cached tokens are never folded in, and a non-zero total is kept.
  (2) The store: \<open>normaliseDetail\<close> keeps the four counts and a non-zero total; a zero
  total becomes input + output + reasoning, and input + output + reasoning + cached when
  that sum is zero. (3) \<open>normaliseTokenStats\<close> applies the same rule to an imported
  detail. (4) What the store makes of a published detail is what it makes of the detail
  itself, and this total is what \<open>Record\<close> adds to the token counter. (5) Every
  derivation, run again on its result, changes nothing.
\<close>

theorem total_tokens_by_stage:
  "(\<not> once u \<longrightarrow>
      publishWithOutcome (Some u) d failed published
        = (Some (u\<lparr>once := True\<rparr>),
           published @
           [\<lparr>Provider = provider u, Model = model u, APIKey = apiKey u,
             AuthID = authID u, AuthIndex = authIndex u, Source = source u,
             RequestedAt = requestedAt u, Failed = failed,
             Detail = d\<lparr>usage_Detail.TotalTokens :=
                         (if usage_Detail.TotalTokens d = 0 \<and> 0 <s partsSum d
                          then partsSum d else usage_Detail.TotalTokens d)\<rparr>,
             Method = [], Path = [], ClientIP = [], StatusCode = 0, LatencyMs = 0\<rparr>]))
   \<and> normaliseDetail d =
       \<lparr>TokenStats.InputTokens = usage_Detail.InputTokens d,
        TokenStats.OutputTokens = usage_Detail.OutputTokens d,
        TokenStats.ReasoningTokens = usage_Detail.ReasoningTokens d,
        TokenStats.CachedTokens = usage_Detail.CachedTokens d,
        TokenStats.TotalTokens =
          (if usage_Detail.TotalTokens d \<noteq> 0 then usage_Detail.TotalTokens d
           else if partsSum d \<noteq> 0 then partsSum d
           else partsSum d + usage_Detail.CachedTokens d)\<rparr>
   \<and> normaliseTokenStats t =
       t\<lparr>TokenStats.TotalTokens :=
           (if TokenStats.TotalTokens t \<noteq> 0 then TokenStats.TotalTokens t
            else if TokenStats.InputTokens t + TokenStats.OutputTokens t
                      + TokenStats.ReasoningTokens t \<noteq> 0
            then TokenStats.InputTokens t + TokenStats.OutputTokens t
                   + TokenStats.ReasoningTokens t
            else TokenStats.InputTokens t + TokenStats.OutputTokens t
                   + TokenStats.ReasoningTokens t + TokenStats.CachedTokens t)\<rparr>
   \<and> (\<not> once u \<longrightarrow>
        map (\<lambda>r. normaliseDetail (Detail r))
          (snd (publishWithOutcome (Some u) d failed [])) = [normaliseDetail d])
   \<and> totalTokens (Record True now record s)
       = totalTokens s + TokenStats.TotalTokens (normaliseDetail (Detail record))
   \<and> deriveTotal (deriveTotal d) = deriveTotal d
   \<and> normaliseTokenStats (normaliseDetail d) = normaliseDetail d
   \<and> normaliseTokenStats (normaliseTokenStats t) = normaliseTokenStats t"
proof (intro conjI impI)
  assume f: "\<not> once u"
  show "publishWithOutcome (Some u) d failed published
        = (Some (u\<lparr>once := True\<rparr>),
           published @
           [\<lparr>Provider = provider u, Model = model u, APIKey = apiKey u,
             AuthID = authID u, AuthIndex = authIndex u, Source = source u,
             RequestedAt = requestedAt u, Failed = failed,
             Detail = d\<lparr>usage_Detail.TotalTokens :=
                         (if usage_Detail.TotalTokens d = 0 \<and> 0 <s partsSum d
                          then partsSum d else usage_Detail.TotalTokens d)\<rparr>,
             Method = [], Path = [], ClientIP = [], StatusCode = 0, LatencyMs = 0\<rparr>])"
    using f by (rule publishWithOutcome_fresh)
next
  show "normaliseDetail d =
       \<lparr>TokenStats.InputTokens = usage_Detail.InputTokens d,
        TokenStats.OutputTokens = usage_Detail.OutputTokens d,
        TokenStats.ReasoningTokens = usage_Detail.ReasoningTokens d,
        TokenStats.CachedTokens = usage_Detail.CachedTokens d,
        TokenStats.TotalTokens =
          (if usage_Detail.TotalTokens d \<noteq> 0 then usage_Detail.TotalTokens d
           else if partsSum d \<noteq> 0 then partsSum d
           else partsSum d + usage_Detail.CachedTokens d)\<rparr>"
    by (rule normaliseDetail_eq)
next
  show "normaliseTokenStats t =
       t\<lparr>TokenStats.TotalTokens :=
           (if TokenStats.TotalTokens t \<noteq> 0 then TokenStats.TotalTokens t
            else if TokenStats.InputTokens t + TokenStats.OutputTokens t
                      + TokenStats.ReasoningTokens t \<noteq> 0
            then TokenStats.InputTokens t + TokenStats.OutputTokens t
                   + TokenStats.ReasoningTokens t
            else TokenStats.InputTokens t + TokenStats.OutputTokens t
                   + TokenStats.ReasoningTokens t + TokenStats.CachedTokens t)\<rparr>"
    by (rule normaliseTokenStats_eq)
next
  assume f: "\<not> once u"
  have "snd (publishWithOutcome (Some u) d failed [])
          = [\<lparr>Provider = provider u, Model = model u, APIKey = apiKey u,
              AuthID = authID u, AuthIndex = authIndex u, Source = source u,
              RequestedAt = requestedAt u, Failed = failed, Detail = deriveTotal d,
              Method = [], Path = [], ClientIP = [], StatusCode = 0, LatencyMs = 0\<rparr>]"
    using f by (simp add: publishWithOutcome_def Let_def)
  then show "map (\<lambda>r. normaliseDetail (Detail r))
          (snd (publishWithOutcome (Some u) d failed [])) = [normaliseDetail d]"
    by (simp add: normaliseDetail_deriveTotal)
next
  show "totalTokens (Record True now record s)
       = totalTokens s + TokenStats.TotalTokens (normaliseDetail (Detail record))"
    by (rule Record_totalTokens)
next
  show "deriveTotal (deriveTotal d) = deriveTotal d"
    by (rule deriveTotal_idem)
next
  show "normaliseTokenStats (normaliseDetail d) = normaliseDetail d"
    by (rule normaliseTokenStats_normaliseDetail)
next
  show "normaliseTokenStats (normaliseTokenStats t) = normaliseTokenStats t"
    by (rule normaliseTokenStats_idem)
qed

theorem total_tokens_by_stage_witness:
  "\<not> once reporter0
   \<and> map (\<lambda>r. usage_Detail.TotalTokens (Detail r))
        (snd (publishWithOutcome (Some reporter0) detail12 False [])) = [3]
   \<and> map (\<lambda>r. usage_Detail.TotalTokens (Detail r))
        (snd (publishWithOutcome (Some reporter0) cachedOnly False [])) = [0]
   \<and> map (\<lambda>r. usage_Detail.TotalTokens (Detail r))
        (snd (publishWithOutcome (Some reporter0)
                (detail12\<lparr>usage_Detail.TotalTokens := 40\<rparr>) False [])) = [40]
   \<and> TokenStats.TotalTokens (normaliseDetail detail12) = 3
   \<and> TokenStats.TotalTokens (normaliseDetail cachedOnly) = 9
   \<and> TokenStats.TotalTokens (normaliseDetail negativeSum) = - 2
   \<and> map (\<lambda>r. TokenStats.TotalTokens (normaliseDetail (Detail r)))
        (snd (publishWithOutcome (Some reporter0) cachedOnly False [])) = [9]"
proof -
  have f: "\<not> once reporter0"
    by (simp add: reporter0_def)
  have p12: "0 <s partsSum detail12" "partsSum detail12 = 3"
    by (simp_all add: partsSum_def detail12_def word_sless_alt)
  have pc: "partsSum cachedOnly = 0"
    by (simp add: partsSum_def cachedOnly_def)
  have pn: "partsSum negativeSum = - 2"
    by (simp add: partsSum_def negativeSum_def)
  note a = total_tokens_by_stage [of reporter0 detail12 False "[]"]
  note b = total_tokens_by_stage [of reporter0 cachedOnly False "[]"]
  note c = total_tokens_by_stage [of reporter0 "detail12\<lparr>usage_Detail.TotalTokens := 40\<rparr>" False "[]"]
  note d = total_tokens_by_stage [of reporter0 negativeSum False "[]"]
  have a1: "map (\<lambda>r. usage_Detail.TotalTokens (Detail r))
        (snd (publishWithOutcome (Some reporter0) detail12 False [])) = [3]"
    using a f p12 by (simp add: detail12_def)
  have b1: "map (\<lambda>r. usage_Detail.TotalTokens (Detail r))
        (snd (publishWithOutcome (Some reporter0) cachedOnly False [])) = [0]"
    using b f pc by (simp add: cachedOnly_def)
  have c1: "map (\<lambda>r. usage_Detail.TotalTokens (Detail r))
        (snd (publishWithOutcome (Some reporter0)
                (detail12\<lparr>usage_Detail.TotalTokens := 40\<rparr>) False [])) = [40]"
    using c f by (simp add: detail12_def)
  have a2: "TokenStats.TotalTokens (normaliseDetail detail12) = 3"
    using a p12 by (simp add: detail12_def)
  have b2: "TokenStats.TotalTokens (normaliseDetail cachedOnly) = 9"
    using b pc by (simp add: cachedOnly_def)
  have d2: "TokenStats.TotalTokens (normaliseDetail negativeSum) = - 2"
    using d pn by (simp add: negativeSum_def)
  have b3: "map (\<lambda>r. TokenStats.TotalTokens (normaliseDetail (Detail r)))
        (snd (publishWithOutcome (Some reporter0) cachedOnly False [])) = [9]"
  proof -
    have b4: "map (\<lambda>r. normaliseDetail (Detail r))
          (snd (publishWithOutcome (Some reporter0) cachedOnly False [])) = [normaliseDetail cachedOnly]"
      using b f by blast
    have "map (\<lambda>r. TokenStats.TotalTokens (normaliseDetail (Detail r)))
            (snd (publishWithOutcome (Some reporter0) cachedOnly False []))
          = map TokenStats.TotalTokens (map (\<lambda>r. normaliseDetail (Detail r))
              (snd (publishWithOutcome (Some reporter0) cachedOnly False [])))"
      by (simp add: comp_def)
    then show ?thesis
      by (simp only: b4 b2 list.map)
  qed
  show ?thesis
    using f a1 b1 c1 a2 b2 d2 b3 by simp
qed


section \<open>The OpenAI parser on a document without a declared total\<close>

definition openaiDoc :: bytes where
  \<open>openaiDoc = ''{"usage":{"prompt_tokens":1,"completion_tokens":2}}''\<close>

lemma parseOpenAIUsage_openaiDoc:
  "parseOpenAIUsage GJ openaiDoc = detail12"
  by code_simp

lemma deriveTotal_detail12:
  "deriveTotal detail12 = detail12\<lparr>usage_Detail.TotalTokens := 3\<rparr>"
  by (simp add: deriveTotal_def detail12_def Let_def word_sless_alt)

text \<open>
  C5. The OpenAI parser reads \<open>{"usage":{"prompt_tokens":1,"completion_tokens":2}}\<close>
  as input 1, output 2 and total 0 (no \<open>total_tokens\<close> field). Publishing that detail
  on a reporter whose latch has not fired hands over one record, whose detail has
  input 1, output 2 and total 3 = 1 + 2 + 0.
\<close>

theorem openai_parse_then_publish:
  assumes "\<not> once u"
  shows "\<exists>record. snd (publish (Some u) (parseOpenAIUsage GJ openaiDoc) []) = [record]
           \<and> usage_Detail.InputTokens (Detail record) = 1
           \<and> usage_Detail.OutputTokens (Detail record) = 2
           \<and> usage_Detail.ReasoningTokens (Detail record) = 0
           \<and> usage_Detail.TotalTokens (Detail record) = 3
           \<and> usage_Detail.TotalTokens (parseOpenAIUsage GJ openaiDoc) = 0"
  using assms
  by (simp add: parseOpenAIUsage_openaiDoc publish_def publishWithOutcome_def
        deriveTotal_detail12 Let_def)
     (simp add: detail12_def)

theorem openai_parse_then_publish_witness:
  "\<exists>record. snd (publish (Some reporter0) (parseOpenAIUsage GJ openaiDoc) []) = [record]
           \<and> usage_Detail.InputTokens (Detail record) = 1
           \<and> usage_Detail.OutputTokens (Detail record) = 2
           \<and> usage_Detail.ReasoningTokens (Detail record) = 0
           \<and> usage_Detail.TotalTokens (Detail record) = 3
           \<and> usage_Detail.TotalTokens (parseOpenAIUsage GJ openaiDoc) = 0"
proof -
  have fresh: "\<not> once reporter0"
    by (simp add: reporter0_def)
  show ?thesis
    by (rule openai_parse_then_publish [OF fresh])
qed


section \<open>The Claude parsers\<close>

definition claudeDoc :: bytes where
  \<open>claudeDoc = ''{"usage":{"input_tokens":10,"output_tokens":5,"cache_creation_input_tokens":7,"total_tokens":99}}''\<close>

definition claudeLine :: bytes where
  "claudeLine = ''data: '' @ claudeDoc"

lemma claudeDetail_fields:
  "usage_Detail.InputTokens (claudeDetail L u) = Int' (Result_Get L u ''input_tokens'')"
  "usage_Detail.OutputTokens (claudeDetail L u) = Int' (Result_Get L u ''output_tokens'')"
  "usage_Detail.ReasoningTokens (claudeDetail L u) = 0"
  "usage_Detail.CachedTokens (claudeDetail L u) =
     (if Int' (Result_Get L u ''cache_read_input_tokens'') = 0
      then Int' (Result_Get L u ''cache_creation_input_tokens'')
      else Int' (Result_Get L u ''cache_read_input_tokens''))"
  "usage_Detail.TotalTokens (claudeDetail L u) =
     Int' (Result_Get L u ''input_tokens'') + Int' (Result_Get L u ''output_tokens'')"
  by (simp_all add: claudeDetail_def Let_def)

text \<open>
  C10. When the usage node \<open>u\<close> exists, \<open>parseClaudeUsage\<close> returns, and
  \<open>parseClaudeStreamUsage\<close> returns with \<open>true\<close>, the detail whose input and output are
  the integers at \<open>input_tokens\<close> and \<open>output_tokens\<close> of \<open>u\<close>, whose total is exactly
  their 64-bit sum (no other field of the document is read for it, and neither cached
  nor reasoning tokens are added), whose reasoning count is zero, and whose cached count
  is \<open>cache_read_input_tokens\<close>, or \<open>cache_creation_input_tokens\<close> when the former is
  zero. This holds whatever the JSON library answers.
\<close>

theorem claude_total_is_input_plus_output:
  "(Exists (Result_Get L (ParseBytes L data) ''usage'') \<longrightarrow>
      (let u = Result_Get L (ParseBytes L data) ''usage''; d = parseClaudeUsage L data
       in usage_Detail.InputTokens d = Int' (Result_Get L u ''input_tokens'')
          \<and> usage_Detail.OutputTokens d = Int' (Result_Get L u ''output_tokens'')
          \<and> usage_Detail.TotalTokens d
              = Int' (Result_Get L u ''input_tokens'') + Int' (Result_Get L u ''output_tokens'')
          \<and> usage_Detail.TotalTokens d = usage_Detail.InputTokens d + usage_Detail.OutputTokens d
          \<and> usage_Detail.ReasoningTokens d = 0
          \<and> usage_Detail.CachedTokens d
              = (if Int' (Result_Get L u ''cache_read_input_tokens'') = 0
                 then Int' (Result_Get L u ''cache_creation_input_tokens'')
                 else Int' (Result_Get L u ''cache_read_input_tokens''))))
   \<and> (length (jsonPayload line) \<noteq> 0 \<and> ValidBytes L (jsonPayload line)
        \<and> Exists (GetBytes L (jsonPayload line) ''usage'') \<longrightarrow>
      (let u = GetBytes L (jsonPayload line) ''usage''; d = fst (parseClaudeStreamUsage L line)
       in snd (parseClaudeStreamUsage L line)
          \<and> usage_Detail.InputTokens d = Int' (Result_Get L u ''input_tokens'')
          \<and> usage_Detail.OutputTokens d = Int' (Result_Get L u ''output_tokens'')
          \<and> usage_Detail.TotalTokens d
              = Int' (Result_Get L u ''input_tokens'') + Int' (Result_Get L u ''output_tokens'')
          \<and> usage_Detail.TotalTokens d = usage_Detail.InputTokens d + usage_Detail.OutputTokens d
          \<and> usage_Detail.ReasoningTokens d = 0
          \<and> usage_Detail.CachedTokens d
              = (if Int' (Result_Get L u ''cache_read_input_tokens'') = 0
                 then Int' (Result_Get L u ''cache_creation_input_tokens'')
                 else Int' (Result_Get L u ''cache_read_input_tokens''))))"
proof (intro conjI impI)
  assume ex: "Exists (Result_Get L (ParseBytes L data) ''usage'')"
  then have "parseClaudeUsage L data = claudeDetail L (Result_Get L (ParseBytes L data) ''usage'')"
    by (simp add: parseClaudeUsage_def Let_def)
  then show "let u = Result_Get L (ParseBytes L data) ''usage''; d = parseClaudeUsage L data
       in usage_Detail.InputTokens d = Int' (Result_Get L u ''input_tokens'')
          \<and> usage_Detail.OutputTokens d = Int' (Result_Get L u ''output_tokens'')
          \<and> usage_Detail.TotalTokens d
              = Int' (Result_Get L u ''input_tokens'') + Int' (Result_Get L u ''output_tokens'')
          \<and> usage_Detail.TotalTokens d = usage_Detail.InputTokens d + usage_Detail.OutputTokens d
          \<and> usage_Detail.ReasoningTokens d = 0
          \<and> usage_Detail.CachedTokens d
              = (if Int' (Result_Get L u ''cache_read_input_tokens'') = 0
                 then Int' (Result_Get L u ''cache_creation_input_tokens'')
                 else Int' (Result_Get L u ''cache_read_input_tokens''))"
    by (simp add: Let_def claudeDetail_fields)
next
  assume a: "length (jsonPayload line) \<noteq> 0 \<and> ValidBytes L (jsonPayload line)
        \<and> Exists (GetBytes L (jsonPayload line) ''usage'')"
  then have "parseClaudeStreamUsage L line
               = (claudeDetail L (GetBytes L (jsonPayload line) ''usage''), True)"
    by (simp add: parseClaudeStreamUsage_def Let_def)
  then show "let u = GetBytes L (jsonPayload line) ''usage''; d = fst (parseClaudeStreamUsage L line)
       in snd (parseClaudeStreamUsage L line)
          \<and> usage_Detail.InputTokens d = Int' (Result_Get L u ''input_tokens'')
          \<and> usage_Detail.OutputTokens d = Int' (Result_Get L u ''output_tokens'')
          \<and> usage_Detail.TotalTokens d
              = Int' (Result_Get L u ''input_tokens'') + Int' (Result_Get L u ''output_tokens'')
          \<and> usage_Detail.TotalTokens d = usage_Detail.InputTokens d + usage_Detail.OutputTokens d
          \<and> usage_Detail.ReasoningTokens d = 0
          \<and> usage_Detail.CachedTokens d
              = (if Int' (Result_Get L u ''cache_read_input_tokens'') = 0
                 then Int' (Result_Get L u ''cache_creation_input_tokens'')
                 else Int' (Result_Get L u ''cache_read_input_tokens''))"
    by (simp add: Let_def claudeDetail_fields)
qed

lemma claudeDoc_usage_exists:
  "Exists (Result_Get GJ (ParseBytes GJ claudeDoc) ''usage'')"
  by code_simp

lemma claudeDoc_stream_usage_exists:
  "length (jsonPayload claudeLine) \<noteq> 0
   \<and> ValidBytes GJ (jsonPayload claudeLine)
   \<and> Exists (GetBytes GJ (jsonPayload claudeLine) ''usage'')"
  by code_simp

lemma claudeDoc_lookups:
  "Int' (Result_Get GJ (Result_Get GJ (ParseBytes GJ claudeDoc) ''usage'') ''input_tokens'') = 10"
  "Int' (Result_Get GJ (Result_Get GJ (ParseBytes GJ claudeDoc) ''usage'') ''output_tokens'') = 5"
  "Int' (Result_Get GJ (Result_Get GJ (ParseBytes GJ claudeDoc) ''usage'') ''cache_read_input_tokens'') = 0"
  "Int' (Result_Get GJ (Result_Get GJ (ParseBytes GJ claudeDoc) ''usage'') ''cache_creation_input_tokens'') = 7"
  "Int' (Result_Get GJ (Result_Get GJ (ParseBytes GJ claudeDoc) ''usage'') ''total_tokens'') = 99"
  by code_simp+

lemma claudeDoc_stream_lookups:
  "Int' (Result_Get GJ (GetBytes GJ (jsonPayload claudeLine) ''usage'') ''input_tokens'') = 10"
  "Int' (Result_Get GJ (GetBytes GJ (jsonPayload claudeLine) ''usage'') ''output_tokens'') = 5"
  "Int' (Result_Get GJ (GetBytes GJ (jsonPayload claudeLine) ''usage'') ''cache_read_input_tokens'') = 0"
  "Int' (Result_Get GJ (GetBytes GJ (jsonPayload claudeLine) ''usage'') ''cache_creation_input_tokens'') = 7"
  by code_simp+

theorem claude_total_is_input_plus_output_witness:
  "Exists (Result_Get GJ (ParseBytes GJ claudeDoc) ''usage'')
   \<and> usage_Detail.TotalTokens (parseClaudeUsage GJ claudeDoc) = 15
   \<and> usage_Detail.CachedTokens (parseClaudeUsage GJ claudeDoc) = 7
   \<and> length (jsonPayload claudeLine) \<noteq> 0
   \<and> ValidBytes GJ (jsonPayload claudeLine)
   \<and> Exists (GetBytes GJ (jsonPayload claudeLine) ''usage'')
   \<and> snd (parseClaudeStreamUsage GJ claudeLine)
   \<and> usage_Detail.TotalTokens (fst (parseClaudeStreamUsage GJ claudeLine)) = 15
   \<and> usage_Detail.CachedTokens (fst (parseClaudeStreamUsage GJ claudeLine)) = 7"
  using claude_total_is_input_plus_output [of GJ claudeDoc claudeLine]
    claudeDoc_usage_exists claudeDoc_stream_usage_exists
  by (simp add: Let_def claudeDoc_lookups claudeDoc_stream_lookups)

section \<open>An unrecognized database driver\<close>

definition opens :: "Dialector \<Rightarrow> string option" where
  "opens dialector = None"

definition closedState :: dbState where
  "closedState = \<lparr>DB = None, initOnce = False, madeDirs = []\<rparr>"

definition postgresConfig :: Config where
  "postgresConfig = \<lparr>Driver = ''postgres'', DSN = [], LogDir = []\<rparr>"

lemma ToLower_sqlite: "ToLower ''sqlite'' = ''sqlite''"
  by (simp add: ToLower_def toLowerChar_def)

lemma ToLower_postgres: "ToLower ''postgres'' = ''postgres''"
  by (simp add: ToLower_def toLowerChar_def)

text \<open>
  C8, as stated, fails: with the driver \<open>postgres\<close>, a name the switch does not know,
  and a database that opens, \<open>Init\<close> returns no error and the handle is a SQLite
  database at \<open>cliproxy.db\<close>.
\<close>

theorem init_unrecognized_driver_counterexample:
  "Init opens postgresConfig closedState
     = (None, \<lparr>DB = Some (SQLite (Literal ''cliproxy.db'')), initOnce = True, madeDirs = []\<rparr>)"
  by (simp add: Init_def selectDialector_def postgresConfig_def closedState_def opens_def
        ToLower_postgres sqlitePath_def sqliteMkdirs_def)

text \<open>
  C8, amended. A driver name other than \<open>mysql\<close>, \<open>sqlite\<close> and \<open>sqlite3\<close> (in lower
  case) takes the default branch of the switch: the dialector is SQLite at the path the
  \<open>sqlite\<close> driver would use, with the same directories made. On the first call of
  \<open>Init\<close>, no error is returned when that database opens, and the only error returned
  is the failure to open it.
\<close>

theorem init_unrecognized_driver_defaults_to_sqlite:
  assumes "ToLower (Driver cfg) \<noteq> ''mysql''"
    and "ToLower (Driver cfg) \<noteq> ''sqlite''"
    and "ToLower (Driver cfg) \<noteq> ''sqlite3''"
    and "\<not> initOnce st"
  shows "selectDialector cfg = (SQLite (sqlitePath cfg), sqliteMkdirs cfg)
         \<and> selectDialector cfg = selectDialector (cfg\<lparr>Driver := ''sqlite''\<rparr>)
         \<and> Init gormOpen cfg st =
             (case gormOpen (SQLite (sqlitePath cfg)) of
                None \<Rightarrow> (None, st\<lparr>DB := Some (SQLite (sqlitePath cfg)), initOnce := True,
                                  madeDirs := madeDirs st @ sqliteMkdirs cfg\<rparr>)
              | Some openErr \<Rightarrow> (Some (''failed to connect to database: '' @ openErr),
                                  st\<lparr>initOnce := True, madeDirs := madeDirs st @ sqliteMkdirs cfg\<rparr>))"
proof -
  have sel: "selectDialector cfg = (SQLite (sqlitePath cfg), sqliteMkdirs cfg)"
    using assms(1-3) by (simp add: selectDialector_def Let_def)
  have same: "selectDialector (cfg\<lparr>Driver := ''sqlite''\<rparr>) = (SQLite (sqlitePath cfg), sqliteMkdirs cfg)"
    by (simp add: selectDialector_def Let_def ToLower_sqlite sqlitePath_def sqliteMkdirs_def)
  have init: "Init gormOpen cfg st =
             (case gormOpen (SQLite (sqlitePath cfg)) of
                None \<Rightarrow> (None, st\<lparr>DB := Some (SQLite (sqlitePath cfg)), initOnce := True,
                                  madeDirs := madeDirs st @ sqliteMkdirs cfg\<rparr>)
              | Some openErr \<Rightarrow> (Some (''failed to connect to database: '' @ openErr),
                                  st\<lparr>initOnce := True, madeDirs := madeDirs st @ sqliteMkdirs cfg\<rparr>))"
    using assms(4) by (simp add: Init_def sel split: option.split)
  show ?thesis
    using sel same init by simp
qed

theorem init_unrecognized_driver_defaults_to_sqlite_witness:
  "ToLower (Driver postgresConfig) \<noteq> ''mysql'' \<and> ToLower (Driver postgresConfig) \<noteq> ''sqlite''
   \<and> ToLower (Driver postgresConfig) \<noteq> ''sqlite3'' \<and> \<not> initOnce closedState
   \<and> selectDialector postgresConfig = (SQLite (Literal ''cliproxy.db''), [])
   \<and> fst (Init opens postgresConfig closedState) = None"
proof -
  have h: "ToLower (Driver postgresConfig) \<noteq> ''mysql''"
      "ToLower (Driver postgresConfig) \<noteq> ''sqlite''"
      "ToLower (Driver postgresConfig) \<noteq> ''sqlite3''"
      "\<not> initOnce closedState"
    by (simp_all add: postgresConfig_def closedState_def ToLower_postgres)
  have p: "sqlitePath postgresConfig = Literal ''cliproxy.db''" "sqliteMkdirs postgresConfig = []"
    by (simp_all add: sqlitePath_def sqliteMkdirs_def postgresConfig_def)
  show ?thesis
    using h init_unrecognized_driver_defaults_to_sqlite [OF h, of opens]
    by (simp add: p opens_def)
qed


section \<open>Trimming and splitting\<close>

lemma unicodeSpaces_nonempty: "r \<in> set unicodeSpaces \<Longrightarrow> r \<noteq> []"
  by (auto simp: unicodeSpaces_def)

lemma find_Some_holds: "find P xs = Some x \<Longrightarrow> P x \<and> x \<in> set xs"
  by (induction xs) (auto split: if_splits)

lemma leadingSpaceWidth_le: "leadingSpaceWidth s \<le> length s"
proof (cases s)
  case Nil
  then show ?thesis by (simp add: leadingSpaceWidth_def)
next
  case (Cons c t)
  show ?thesis
  proof (cases "find (\<lambda>r. prefix r s) unicodeSpaces")
    case None
    then show ?thesis using Cons by (simp add: leadingSpaceWidth_def)
  next
    case (Some r)
    then have "prefix r s" by (auto dest: find_Some_holds)
    then have "length r \<le> length s" by (rule prefix_length_le)
    then show ?thesis using Cons Some by (simp add: leadingSpaceWidth_def)
  qed
qed

lemma trailingSpaceWidth_le: "trailingSpaceWidth s \<le> length s"
proof (cases "rev s")
  case Nil
  then show ?thesis by (simp add: trailingSpaceWidth_def)
next
  case (Cons c t)
  then have ne: "s \<noteq> []" by auto
  show ?thesis
  proof (cases "find (\<lambda>r. suffix r s) unicodeSpaces")
    case None
    then show ?thesis using Cons ne by (cases s) (simp_all add: trailingSpaceWidth_def)
  next
    case (Some r)
    then have "suffix r s" by (auto dest: find_Some_holds)
    then have "length r \<le> length s" by (rule suffix_length_le)
    then show ?thesis using Cons Some ne by (cases s) (simp_all add: trailingSpaceWidth_def)
  qed
qed

lemma leadingSpaceWidth_zero_iff:
  "leadingSpaceWidth s = 0 \<longleftrightarrow>
     (s = [] \<or> (\<not> asciiSpace (hd s) \<and> (\<forall>r\<in>set unicodeSpaces. \<not> prefix r s)))"
  by (cases s)
     (auto simp: leadingSpaceWidth_def find_None_iff split: option.splits
       dest!: find_Some_holds dest: unicodeSpaces_nonempty)

lemma trimLeftN_done: "leadingSpaceWidth s = 0 \<Longrightarrow> trimLeftN n s = s"
  by (cases n) simp_all

lemma trimRightN_done: "trailingSpaceWidth s = 0 \<Longrightarrow> trimRightN n s = s"
  by (cases n) simp_all

lemma trimLeftN_trimmed: "length s \<le> n \<Longrightarrow> leadingSpaceWidth (trimLeftN n s) = 0"
proof (induction n arbitrary: s)
  case 0
  then show ?case by (simp add: leadingSpaceWidth_def)
next
  case (Suc n)
  show ?case
  proof (cases "leadingSpaceWidth s = 0")
    case True
    then show ?thesis by simp
  next
    case False
    then have "length (drop (leadingSpaceWidth s) s) \<le> n"
      using Suc.prems by simp
    then show ?thesis
      using False Suc.IH by simp
  qed
qed

lemma trimRightN_trimmed: "length s \<le> n \<Longrightarrow> trailingSpaceWidth (trimRightN n s) = 0"
proof (induction n arbitrary: s)
  case 0
  then show ?case by (simp add: trailingSpaceWidth_def)
next
  case (Suc n)
  show ?case
  proof (cases "trailingSpaceWidth s = 0")
    case True
    then show ?thesis by simp
  next
    case False
    then have "length (take (length s - trailingSpaceWidth s) s) \<le> n"
      using Suc.prems by simp
    then show ?thesis
      using False Suc.IH by simp
  qed
qed

lemma trimRightN_prefix: "prefix (trimRightN n s) s"
proof (induction n arbitrary: s)
  case 0
  then show ?case by simp
next
  case (Suc n)
  have "prefix (trimRightN n (take (length s - trailingSpaceWidth s) s))
          (take (length s - trailingSpaceWidth s) s)"
    by (rule Suc.IH)
  then have "prefix (trimRightN n (take (length s - trailingSpaceWidth s) s)) s"
    using take_is_prefix prefix_order.order_trans by blast
  then show ?case by simp
qed

lemma leadingSpaceWidth_prefix:
  assumes "prefix t s" and "leadingSpaceWidth s = 0"
  shows "leadingSpaceWidth t = 0"
proof (cases t)
  case Nil
  then show ?thesis by (simp add: leadingSpaceWidth_def)
next
  case (Cons c t')
  then obtain s' where s: "s = c # s'"
    using assms(1) by (cases s) auto
  have a: "\<not> asciiSpace c" and b: "\<forall>r\<in>set unicodeSpaces. \<not> prefix r s"
    using assms(2) s by (auto simp: leadingSpaceWidth_zero_iff)
  have "\<forall>r\<in>set unicodeSpaces. \<not> prefix r t"
    using b assms(1) prefix_order.order_trans by blast
  then show ?thesis
    using a Cons by (simp add: leadingSpaceWidth_zero_iff)
qed

lemma TrimSpace_idem: "TrimSpace (TrimSpace s) = TrimSpace s"
proof -
  define l where "l = trimLeftN (length s) s"
  define x where "x = trimRightN (length l) l"
  have x: "TrimSpace s = x"
    by (simp add: TrimSpace_def l_def x_def Let_def)
  have "leadingSpaceWidth l = 0"
    unfolding l_def by (rule trimLeftN_trimmed) simp
  then have lx: "leadingSpaceWidth x = 0"
    unfolding x_def using trimRightN_prefix leadingSpaceWidth_prefix by blast
  have tx: "trailingSpaceWidth x = 0"
    unfolding x_def by (rule trimRightN_trimmed) simp
  have "TrimSpace x = x"
    by (simp add: TrimSpace_def Let_def trimLeftN_done[OF lx] trimRightN_done[OF tx])
  then show ?thesis
    by (simp add: x)
qed

lemma TrimSpace_Nil: "TrimSpace [] = []"
  by (simp add: TrimSpace_def)

lemma chunkOf_trimmed: "TrimSpace (chunkOf line) = chunkOf line"
  by (simp add: chunkOf_def TrimSpace_idem TrimSpace_Nil split: option.split)

lemma splitOn_nonempty: "splitOn sep s \<noteq> []"
  by (induction s) (auto split: list.splits)

lemma joinWith_Cons: "ls \<noteq> [] \<Longrightarrow> joinWith sep (l # ls) = l @ sep # joinWith sep ls"
  by (cases ls) simp_all

lemma joinWith_splitOn: "joinWith sep (splitOn sep s) = s"
proof (induction s)
  case Nil
  show ?case by simp
next
  case (Cons c s)
  show ?case
  proof (cases "c = sep")
    case True
    then show ?thesis
      using Cons splitOn_nonempty[of sep s] by (simp add: joinWith_Cons)
  next
    case False
    obtain l ls where sp: "splitOn sep s = l # ls"
      using splitOn_nonempty[of sep s] by (cases "splitOn sep s") auto
    have "joinWith sep ((c # l) # ls) = c # joinWith sep (l # ls)"
      by (cases ls) simp_all
    then show ?thesis
      using False Cons sp by simp
  qed
qed

lemma JoinLines_SplitLines: "JoinLines (SplitLines payload) = payload"
  by (simp add: JoinLines_def SplitLines_def joinWith_splitOn)


section \<open>The loop of the filter\<close>

lemma Strip_empty: "StripUsageMetadataFromJSON L [] = ([], False)"
  by (simp add: StripUsageMetadataFromJSON_def TrimSpace_Nil)

lemma Strip_terminal:
  "declaresFinishReason L (TrimSpace raw) \<Longrightarrow> StripUsageMetadataFromJSON L raw = (raw, False)"
  by (simp add: StripUsageMetadataFromJSON_def declaresFinishReason_def Let_def)

lemma Strip_terminal_chunk:
  "declaresFinishReason L (chunkOf line) \<Longrightarrow>
     StripUsageMetadataFromJSON L (chunkOf line) = (chunkOf line, False)"
  using Strip_terminal[of L "chunkOf line"] by (simp add: chunkOf_trimmed)

lemma isStop_empty: "\<not> isStopChunkWithoutUsage L []"
  by (simp add: isStopChunkWithoutUsage_def)

lemma hasUsage_empty: "\<not> hasUsageMetadata L []"
  by (simp add: hasUsageMetadata_def)

lemma filterLine_nondata: "\<not> isDataLine line \<Longrightarrow> filterLine L line st = (line, st)"
  by (auto simp: filterLine_def isDataLine_def Let_def)

text \<open>The loop body on a data line, in terms of the chunk it reads.\<close>

lemma filterLine_data:
  assumes "isDataLine line"
  shows "filterLine L line st =
     (if isStopChunkWithoutUsage L (chunkOf line) \<and> traceIdOf L line \<noteq> []
      then (line, st\<lparr>foundData := True,
                     stopChunkWithoutUsage := insert (traceIdOf L line) (stopChunkWithoutUsage st)\<rparr>)
      else if traceIdOf L line \<noteq> [] \<and> traceIdOf L line \<in> stopChunkWithoutUsage st
                \<and> hasUsageMetadata L (chunkOf line)
      then (line, st\<lparr>foundData := True,
                     stopChunkWithoutUsage := stopChunkWithoutUsage st - {traceIdOf L line}\<rparr>)
      else if \<not> snd (StripUsageMetadataFromJSON L (chunkOf line))
      then (line, st\<lparr>foundData := True\<rparr>)
      else (take (the (Index line ''data:'')) line @ ''data:''
              @ (if length (fst (StripUsageMetadataFromJSON L (chunkOf line))) > 0
                 then CHR 0x20 # fst (StripUsageMetadataFromJSON L (chunkOf line)) else []),
            st\<lparr>foundData := True, modified := True\<rparr>))"
proof (cases "Index line ''data:''")
  case None
  then have c: "chunkOf line = []"
    by (simp add: chunkOf_def)
  have "filterLine L line st = (line, st\<lparr>foundData := True\<rparr>)"
    using assms None by (simp add: filterLine_def isDataLine_def Let_def)
  then show ?thesis
    by (simp add: c isStop_empty hasUsage_empty Strip_empty)
next
  case (Some dataIdx)
  then have c: "TrimSpace (drop (dataIdx + 5) line) = chunkOf line"
    by (simp add: chunkOf_def)
  show ?thesis
    using assms Some
    by (simp add: filterLine_def isDataLine_def Let_def c traceIdOf_def
          rememberStopWithoutUsage_def split: prod.split)
qed

lemma filterLine_foundData:
  "foundData (snd (filterLine L line st)) = (foundData st \<or> isDataLine line)"
  by (cases "isDataLine line") (simp_all add: filterLine_nondata filterLine_data)

lemma filterLine_keeps:
  assumes "keepsLine L line"
  shows "fst (filterLine L line st) = line
         \<and> modified (snd (filterLine L line st)) = modified st"
proof (cases "isDataLine line")
  case False
  then show ?thesis by (simp add: filterLine_nondata)
next
  case True
  have "\<not> snd (StripUsageMetadataFromJSON L (chunkOf line))"
    using assms True Strip_terminal_chunk[of L line] by (auto simp: keepsLine_def)
  then show ?thesis
    by (simp add: filterLine_data[OF True])
qed

lemma filterLines_Cons:
  "filterLines L (l # ls) st =
     (fst (filterLine L l st) # fst (filterLines L ls (snd (filterLine L l st))),
      snd (filterLines L ls (snd (filterLine L l st))))"
  by (simp split: prod.split)

lemma filterLines_length: "length (fst (filterLines L ls st)) = length ls"
  by (induction ls arbitrary: st) (simp_all add: filterLines_Cons del: filterLines.simps(2))

lemma filterLines_append:
  "filterLines L (xs @ ys) st =
     (fst (filterLines L xs st) @ fst (filterLines L ys (snd (filterLines L xs st))),
      snd (filterLines L ys (snd (filterLines L xs st))))"
  by (induction xs arbitrary: st) (simp_all add: filterLines_Cons del: filterLines.simps(2))

lemma filterLines_foundData:
  "foundData (snd (filterLines L ls st)) = (foundData st \<or> (\<exists>l\<in>set ls. isDataLine l))"
proof (induction ls arbitrary: st)
  case Nil
  show ?case by simp
next
  case (Cons l ls)
  have "foundData (snd (filterLines L (l # ls) st))
          = foundData (snd (filterLines L ls (snd (filterLine L l st))))"
    by (simp add: filterLines_Cons del: filterLines.simps(2))
  then show ?case
    using Cons[of "snd (filterLine L l st)"] filterLine_foundData[of L l st] by auto
qed

lemma filterLines_keeps:
  assumes "\<forall>l\<in>set ls. keepsLine L l"
  shows "fst (filterLines L ls st) = ls \<and> modified (snd (filterLines L ls st)) = modified st"
  using assms
proof (induction ls arbitrary: st)
  case Nil
  show ?case by simp
next
  case (Cons l ls)
  have k: "fst (filterLine L l st) = l" "modified (snd (filterLine L l st)) = modified st"
    using Cons.prems filterLine_keeps[of L l st] by simp_all
  have r: "fst (filterLines L ls (snd (filterLine L l st))) = ls"
      "modified (snd (filterLines L ls (snd (filterLine L l st)))) = modified (snd (filterLine L l st))"
    using Cons.IH[of "snd (filterLine L l st)"] Cons.prems by simp_all
  show ?case
    using k r by (simp add: filterLines_Cons del: filterLines.simps(2))
qed

text \<open>Lines that are not data lines stand unchanged at their position.\<close>

lemma filterLines_nth_nondata:
  "i < length ls \<Longrightarrow> \<not> isDataLine (ls ! i) \<Longrightarrow> fst (filterLines L ls st) ! i = ls ! i"
proof (induction ls arbitrary: st i)
  case Nil
  then show ?case by simp
next
  case (Cons l ls)
  show ?case
  proof (cases i)
    case 0
    then show ?thesis
      using Cons.prems by (simp add: filterLine_nondata filterLines_Cons del: filterLines.simps(2))
  next
    case (Suc j)
    then show ?thesis
      using Cons.prems Cons.IH[of j "snd (filterLine L l st)"]
      by (simp add: filterLines_Cons del: filterLines.simps(2))
  qed
qed

lemma filterLines_at:
  "fst (filterLines L (before @ line # after) st) ! length before
     = fst (filterLine L line (snd (filterLines L before st)))"
  by (simp add: filterLines_append nth_append filterLines_length filterLines_Cons
        del: filterLines.simps(2))

lemma Filter_unfold:
  "FilterSSEUsageMetadata L payload mem =
     (if length payload = 0 then (payload, mem)
      else
        (if \<not> modified (snd (filterLines L (SplitLines payload) (startState mem))) then
           (if \<not> foundData (snd (filterLines L (SplitLines payload) (startState mem))) then
              (if \<not> snd (StripUsageMetadataFromJSON L (TrimSpace payload)) then payload
               else fst (StripUsageMetadataFromJSON L (TrimSpace payload)))
            else payload)
         else JoinLines (fst (filterLines L (SplitLines payload) (startState mem))),
         stopChunkWithoutUsage (snd (filterLines L (SplitLines payload) (startState mem)))))"
  by (auto simp: FilterSSEUsageMetadata_def startState_def split: prod.split)

text \<open>The output of the filter is the lines of some array joined, of the same length as
  the input's, whenever the payload has a data line.\<close>

lemma Filter_with_data_line:
  assumes "\<exists>l\<in>set (SplitLines payload). isDataLine l"
  shows "fst (FilterSSEUsageMetadata L payload mem)
           = JoinLines (if modified (snd (filterLines L (SplitLines payload) (startState mem)))
                        then fst (filterLines L (SplitLines payload) (startState mem))
                        else SplitLines payload)
         \<and> snd (FilterSSEUsageMetadata L payload mem)
           = stopChunkWithoutUsage (snd (filterLines L (SplitLines payload) (startState mem)))"
proof -
  have ne: "payload \<noteq> []"
  proof
    assume "payload = []"
    then have "SplitLines payload = [[]]"
      by (simp add: SplitLines_def)
    then show False
      using assms by (simp add: isDataLine_def TrimSpace_Nil)
  qed
  have fd: "foundData (snd (filterLines L (SplitLines payload) (startState mem)))"
    using assms by (simp add: filterLines_foundData)
  show ?thesis
    using ne fd
    by (simp add: Filter_unfold JoinLines_SplitLines)
qed


section \<open>A stop chunk without usage\<close>

definition stopLine :: bytes where
  \<open>stopLine = ''data: {"candidates":[{"finishReason":"STOP"}],"traceId":"abc"}''\<close>


lemma stopLine_facts:
  "isDataLine stopLine"
  "isStopChunkWithoutUsage GJ (chunkOf stopLine)"
  "traceIdOf GJ stopLine = ''abc''"
  "SplitLines stopLine = [stopLine]"
  by code_simp+

text \<open>
  C2, as stated, fails. The payload is the single line
  \<open>data: {"candidates":[{"finishReason":"STOP"}],"traceId":"abc"}\<close>: a data line that
  declares a finish reason, carries no usage metadata and has the trace id \<open>abc\<close>. The
  filter records \<open>abc\<close>, and its output is the payload, the line still in it.
\<close>

theorem stop_chunk_dropped_counterexample:
  "isDataLine stopLine \<and> isStopChunkWithoutUsage GJ (chunkOf stopLine)
   \<and> traceIdOf GJ stopLine = ''abc''
   \<and> fst (FilterSSEUsageMetadata GJ stopLine {}) = stopLine
   \<and> ''abc'' \<in> snd (FilterSSEUsageMetadata GJ stopLine {})"
  by code_simp

text \<open>
  C2, amended. A data line whose JSON is a stop chunk without usage (a non-empty finish
  reason at either place, no usage metadata) and has a non-empty top-level trace id is
  left as it is by its turn of the loop, which records the trace id in the correlation
  memory. In the output of the filter the line stands unchanged at its position: the
  output is an array of as many lines as the payload has, joined, with this line in
  its place. When it is the last line of the payload, its trace id is in the memory the
  filter leaves.
\<close>

theorem stop_chunk_remembered_and_kept:
  assumes "isDataLine line"
    and "isStopChunkWithoutUsage L (chunkOf line)"
    and "traceIdOf L line \<noteq> []"
    and "SplitLines payload = before @ line # after"
  shows "filterLine L line st
           = (line, st\<lparr>foundData := True,
                         stopChunkWithoutUsage := insert (traceIdOf L line) (stopChunkWithoutUsage st)\<rparr>)
         \<and> (\<exists>ls. fst (FilterSSEUsageMetadata L payload mem) = JoinLines ls
                  \<and> length ls = length (SplitLines payload)
                  \<and> ls ! length before = line)
         \<and> traceIdOf L line
             \<in> stopChunkWithoutUsage (snd (filterLines L (before @ [line]) (startState mem)))
         \<and> (after = [] \<longrightarrow> traceIdOf L line \<in> snd (FilterSSEUsageMetadata L payload mem))"
proof -
  have step: "\<And>st. filterLine L line st
           = (line, st\<lparr>foundData := True,
                         stopChunkWithoutUsage := insert (traceIdOf L line) (stopChunkWithoutUsage st)\<rparr>)"
    using assms(2,3) by (simp add: filterLine_data[OF assms(1)])
  have has: "\<exists>l\<in>set (SplitLines payload). isDataLine l"
    using assms(1,4) by auto
  let ?run = "filterLines L (SplitLines payload) (startState mem)"
  let ?ls = "if modified (snd ?run) then fst ?run else SplitLines payload"
  have at: "fst ?run ! length before = line"
    unfolding assms(4) by (simp add: filterLines_at step)
  have out: "fst (FilterSSEUsageMetadata L payload mem) = JoinLines ?ls"
    using Filter_with_data_line[OF has] by simp
  have len: "length ?ls = length (SplitLines payload)"
    by (simp add: filterLines_length)
  have pos: "?ls ! length before = line"
    using at assms(4) by simp
  have kept: "\<exists>ls. fst (FilterSSEUsageMetadata L payload mem) = JoinLines ls
                  \<and> length ls = length (SplitLines payload) \<and> ls ! length before = line"
    using out len pos by blast
  have rec: "traceIdOf L line
             \<in> stopChunkWithoutUsage (snd (filterLines L (before @ [line]) (startState mem)))"
    by (simp add: filterLines_append filterLines_Cons step del: filterLines.simps(2))
  have last: "after = [] \<longrightarrow> traceIdOf L line \<in> snd (FilterSSEUsageMetadata L payload mem)"
    using Filter_with_data_line[OF has] rec assms(4) by auto
  show ?thesis
    using step kept rec last by blast
qed

theorem stop_chunk_remembered_and_kept_witness:
  "isDataLine stopLine \<and> isStopChunkWithoutUsage GJ (chunkOf stopLine)
   \<and> traceIdOf GJ stopLine \<noteq> [] \<and> SplitLines stopLine = [] @ stopLine # []
   \<and> fst (filterLine GJ stopLine (startState {})) = stopLine
   \<and> stopChunkWithoutUsage (snd (filterLine GJ stopLine (startState {}))) = {''abc''}
   \<and> ''abc'' \<in> snd (FilterSSEUsageMetadata GJ stopLine {})"
proof -
  have h: "isDataLine stopLine" "isStopChunkWithoutUsage GJ (chunkOf stopLine)"
    "traceIdOf GJ stopLine \<noteq> []" "SplitLines stopLine = [] @ stopLine # []"
    by (simp_all add: stopLine_facts)
  show ?thesis
    using h stop_chunk_remembered_and_kept [OF h, of "startState {}" "{}"]
    by (simp add: stopLine_facts startState_def)
qed


section \<open>Payloads that need no rewriting\<close>

definition terminalLine :: bytes where
  \<open>terminalLine = ''data: {"candidates":[{"finishReason":"STOP"}],"usageMetadata":{"totalTokenCount":7}}''\<close>

definition terminalPayload :: bytes where
  "terminalPayload = ''event: message'' @ [CHR 0x0A] @ terminalLine @ [CHR 0x0A]"

lemma Filter_keeps:
  assumes "\<forall>l\<in>set (SplitLines payload). keepsLine L l"
    and "(\<exists>l\<in>set (SplitLines payload). isDataLine l)
         \<or> declaresFinishReason L (TrimSpace payload)
         \<or> \<not> snd (StripUsageMetadataFromJSON L (TrimSpace payload))"
  shows "fst (FilterSSEUsageMetadata L payload mem) = payload"
proof -
  let ?run = "filterLines L (SplitLines payload) (startState mem)"
  have m: "\<not> modified (snd ?run)"
    using filterLines_keeps[OF assms(1), of "startState mem"] by (simp add: startState_def)
  have fd: "foundData (snd ?run) = (\<exists>l\<in>set (SplitLines payload). isDataLine l)"
    by (simp add: filterLines_foundData startState_def)
  have raw: "\<not> foundData (snd ?run) \<Longrightarrow> \<not> snd (StripUsageMetadataFromJSON L (TrimSpace payload))"
    using assms(2) fd Strip_terminal[of L "TrimSpace payload"] by (auto simp: TrimSpace_idem)
  show ?thesis
    using m raw by (auto simp: Filter_unfold)
qed

text \<open>
  C4. (1) When every data line of a payload declares a non-empty finish reason, and the
  payload has a data line (or, having none, is itself a chunk that declares one), the
  filter returns the payload. (2) More generally it returns the payload whenever no
  chunk needs rewriting: \<open>StripUsageMetadataFromJSON\<close> reports no change for the JSON
  of every data line, and for the payload read as one raw JSON document when it has no
  data line. (3) On every payload, the loop keeps the number and order of the lines, and
  a line that is not a data line stands unchanged at its position.
\<close>

theorem filter_identity_without_rewrite:
  "((\<forall>line\<in>set (SplitLines payload). isDataLine line \<longrightarrow> declaresFinishReason L (chunkOf line))
      \<and> ((\<exists>line\<in>set (SplitLines payload). isDataLine line)
           \<or> declaresFinishReason L (TrimSpace payload))
     \<longrightarrow> fst (FilterSSEUsageMetadata L payload mem) = payload)
   \<and> ((\<forall>line\<in>set (SplitLines payload). isDataLine line \<longrightarrow>
            \<not> snd (StripUsageMetadataFromJSON L (chunkOf line)))
      \<and> ((\<exists>line\<in>set (SplitLines payload). isDataLine line)
           \<or> \<not> snd (StripUsageMetadataFromJSON L (TrimSpace payload)))
     \<longrightarrow> fst (FilterSSEUsageMetadata L payload mem) = payload)
   \<and> length (fst (filterLines L ls st)) = length ls
   \<and> (\<forall>i. i < length ls \<and> \<not> isDataLine (ls ! i) \<longrightarrow> fst (filterLines L ls st) ! i = ls ! i)"
proof (intro conjI impI allI)
  assume a: "(\<forall>line\<in>set (SplitLines payload). isDataLine line \<longrightarrow> declaresFinishReason L (chunkOf line))
      \<and> ((\<exists>line\<in>set (SplitLines payload). isDataLine line)
           \<or> declaresFinishReason L (TrimSpace payload))"
  then have "\<forall>l\<in>set (SplitLines payload). keepsLine L l"
    by (auto simp: keepsLine_def)
  then show "fst (FilterSSEUsageMetadata L payload mem) = payload"
    using a by (intro Filter_keeps) auto
next
  assume a: "(\<forall>line\<in>set (SplitLines payload). isDataLine line \<longrightarrow>
            \<not> snd (StripUsageMetadataFromJSON L (chunkOf line)))
      \<and> ((\<exists>line\<in>set (SplitLines payload). isDataLine line)
           \<or> \<not> snd (StripUsageMetadataFromJSON L (TrimSpace payload)))"
  then have "\<forall>l\<in>set (SplitLines payload). keepsLine L l"
    by (auto simp: keepsLine_def)
  then show "fst (FilterSSEUsageMetadata L payload mem) = payload"
    using a by (intro Filter_keeps) auto
next
  show "length (fst (filterLines L ls st)) = length ls"
    by (rule filterLines_length)
next
  fix i assume "i < length ls \<and> \<not> isDataLine (ls ! i)"
  then show "fst (filterLines L ls st) ! i = ls ! i"
    by (simp add: filterLines_nth_nondata)
qed

lemma terminalPayload_lines:
  "SplitLines terminalPayload = [''event: message'', terminalLine, []]"
  by code_simp

lemma terminalPayload_facts:
  "\<not> isDataLine ''event: message''"
  "isDataLine terminalLine"
  "\<not> isDataLine []"
  "declaresFinishReason GJ (chunkOf terminalLine)"
  by code_simp+

theorem filter_identity_without_rewrite_witness:
  "SplitLines terminalPayload = [''event: message'', terminalLine, []]
   \<and> \<not> isDataLine ''event: message'' \<and> \<not> isDataLine []
   \<and> isDataLine terminalLine \<and> declaresFinishReason GJ (chunkOf terminalLine)
   \<and> fst (FilterSSEUsageMetadata GJ terminalPayload {}) = terminalPayload
   \<and> fst (filterLines GJ (SplitLines terminalPayload) (startState {})) ! 0 = ''event: message''"
proof -
  have h: "\<forall>line\<in>set (SplitLines terminalPayload). isDataLine line \<longrightarrow> declaresFinishReason GJ (chunkOf line)"
    by (simp add: terminalPayload_lines terminalPayload_facts)
  have e: "\<exists>line\<in>set (SplitLines terminalPayload). isDataLine line"
    by (simp add: terminalPayload_lines terminalPayload_facts)
  have n: "0 < length (SplitLines terminalPayload) \<and> \<not> isDataLine (SplitLines terminalPayload ! 0)"
    by (simp add: terminalPayload_lines terminalPayload_facts)
  have first: "SplitLines terminalPayload ! 0 = ''event: message''"
    by (simp add: terminalPayload_lines)
  note inst = filter_identity_without_rewrite
        [of terminalPayload GJ "{}" "SplitLines terminalPayload" "startState {}"]
  have out: "fst (FilterSSEUsageMetadata GJ terminalPayload {}) = terminalPayload"
    using inst h e by blast
  have "fst (filterLines GJ (SplitLines terminalPayload) (startState {})) ! 0
          = SplitLines terminalPayload ! 0"
    using inst n by blast
  then have kept: "fst (filterLines GJ (SplitLines terminalPayload) (startState {})) ! 0
          = ''event: message''"
    using first by simp
  show ?thesis
    using out kept terminalPayload_lines terminalPayload_facts by blast
qed


section \<open>Merging a snapshot twice\<close>










definition apiKeys :: "string \<Rightarrow> apiStats \<Rightarrow> string set" where
  "apiKeys a stats = (\<Union>(m, ms)\<in>set (apiStats.Models stats). dedupKey a m ` set (modelStats.Details ms))"











































text \<open>The keys of the stored details as a list, one for each detail the store holds;
  \<open>seenOf\<close> is its set. \<open>holds\<close>: the store files the detail under the API name and
  the model name.\<close>

definition apiKeyList :: "string \<Rightarrow> apiStats \<Rightarrow> string list" where
  "apiKeyList a stats =
     concat (map (\<lambda>(m, ms). map (dedupKey a m) (modelStats.Details ms)) (apiStats.Models stats))"






lemma apiKeys_apiKeyList: "apiKeys a stats = set (apiKeyList a stats)"
  by (auto simp: apiKeys_def apiKeyList_def)















































section \<open>Printing and parsing are inverse\<close>


lemma skipWS_Nil [simp]: "skipWS [] = []"
  by (simp add: skipWS_def)

lemma skipWS_nonws [simp]: "\<not> jsonWS c \<Longrightarrow> skipWS (c # s) = c # s"
  by (simp add: skipWS_def)





lemma validNumber_hd:
  "validNumber tok \<Longrightarrow> \<exists>c r. tok = c # r \<and> (isDigit c \<or> c = CHR ''-'')"
  by (cases tok) (auto simp: validNumber_def validDigits_def split: if_splits)

definition noNum :: "string \<Rightarrow> bool" where
  "noNum rest \<longleftrightarrow> (case rest of [] \<Rightarrow> True | c # _ \<Rightarrow> \<not> numChar c)"

lemma digit_facts:
  "isDigit c \<Longrightarrow> \<not> jsonWS c \<and> c \<noteq> CHR '']'' \<and> c \<noteq> CHR ''}'' \<and> c \<noteq> CHR ''{'' \<and> c \<noteq> CHR ''[''
     \<and> c \<noteq> CHR 0x22 \<and> c \<noteq> CHR ''t'' \<and> c \<noteq> CHR ''f'' \<and> c \<noteq> CHR ''n''"
  by (auto simp: isDigit_def jsonWS_def)

lemma render_start:
  "wf j \<Longrightarrow> \<exists>c r. render j = c # r \<and> \<not> jsonWS c \<and> c \<noteq> CHR '']'' \<and> c \<noteq> CHR ''}''"
proof (cases j)
  case (JNumber tok)
  assume "wf j"
  with JNumber obtain c r where t: "tok = c # r" and c: "isDigit c \<or> c = CHR ''-''"
    using validNumber_hd by fastforce
  from c have "\<not> jsonWS c \<and> c \<noteq> CHR '']'' \<and> c \<noteq> CHR ''}''"
    using digit_facts by (auto simp: jsonWS_def)
  with t JNumber show ?thesis by simp
qed (auto simp: jsonWS_def quoted_def)








lemma noNum_sep [simp]: "noNum (CHR '','' # s)" "noNum (CHR '']'' # s)" "noNum (CHR ''}'' # s)" "noNum []"
  by (simp_all add: noNum_def numChar_def isDigit_def)

lemma skipWS_render: "wf j \<Longrightarrow> skipWS (render j @ rest) = render j @ rest"
  using render_start[of j] by auto







lemma length_commaSep: "sum_list (map length xs) \<le> length (commaSep xs)"
  by (induction xs rule: commaSep.induct) auto










section \<open>What the two edits of the filter do to a document\<close>













lemma arrayIndex_names:
  "arrayIndex ''usageMetadata'' = None" "arrayIndex ''response'' = None"
  by (simp_all add: arrayIndex_def isDigit_def)

lemma child_usage:
  "child j ''usageMetadata'' = Some u \<Longrightarrow> \<exists>ms. j = JObject ms \<and> map_of ms ''usageMetadata'' = Some u"
  "child j ''response'' = Some r \<Longrightarrow> \<exists>ms. j = JObject ms \<and> map_of ms ''response'' = Some r"
  by (cases j; simp add: child_def arrayIndex_names)+



















lemma render_object_nonempty: "render (JObject ms) \<noteq> []"
  by simp









section \<open>Usage metadata renamed, or passed through\<close>













end
